theory Spec2Isabelle
  imports Main "HOL-Library.Char_ord" "HOL-Library.List_Lexorder"
begin

section \<open>JSON documents and Go values\<close>

text \<open>
  A decoded JSON document. A number is kept in the form the decoder of
  \<^verbatim>\<open>encoding/json\<close> distinguishes when the target is an \<^verbatim>\<open>int64\<close>:
  \<open>JInt n\<close> is a literal written as a plain integer (optional minus sign and digits),
  \<open>JFloat t\<close> is any other number literal, kept as its text \<open>t\<close>. The request body
  reaches the decoders after \<^verbatim>\<open>json.Unmarshal\<close> into \<^verbatim>\<open>interface{}\<close> and
  \<^verbatim>\<open>json.Marshal\<close> back, so a request value stands here in the form
  \<^verbatim>\<open>json.Marshal\<close> writes: the members of an object in the order written (sorted by
  key), a number whose value is integral and below \<open>10\<^sup>2\<^sup>1\<close> in absolute value as
  \<open>JInt\<close>. The bodies of the REST endpoint, of the upstream and of a trace file are
  documents as they come: what the program holds of them is what the decoders below
  make of them.
\<close>

datatype json =
    JNull
  | JBool bool
  | JInt int
  | JFloat string
  | JString string
  | JArray "json list"
  | JObject "(string \<times> json) list"

text \<open>
  A Go slice is \<^verbatim>\<open>nil\<close> (\<open>None\<close>) or holds elements; \<^verbatim>\<open>len\<close> of either
  is a number, and \<^verbatim>\<open>json.Marshal\<close> writes \<^verbatim>\<open>null\<close> for the first and an array
  for the second.
\<close>

type_synonym 'a slice = "'a list option"

definition len :: "'a slice \<Rightarrow> nat" where
  "len s = (case s of None \<Rightarrow> 0 | Some xs \<Rightarrow> length xs)"

text \<open>
  Bytes handed to \<^verbatim>\<open>json.Unmarshal\<close>: text that is no JSON document, or the text
  of a document. A Go call returning \<^verbatim>\<open>(value, err)\<close> is \<open>Err\<close> with the text of
  \<^verbatim>\<open>err.Error()\<close>, or \<open>Ok\<close> with the value.
\<close>

datatype bytes = NotJSON | JSON json

datatype 'a result = Err string | Ok 'a

subsection \<open>The structs of the program\<close>

record JSONRPCRequest =
  Jsonrpc :: string
  Method :: string
  Params :: "json slice"
  ID :: json

record TronTransactionInfo =
  InternalTransactions :: "json slice"
  tx_Id :: string
  BlockNumber :: int
  TransactionHash :: string

text \<open>
  What the \<^verbatim>\<open>interface{}\<close> field \<^verbatim>\<open>Result\<close> holds: a generically decoded value,
  given as the document \<^verbatim>\<open>json.Marshal\<close> writes for it (\<open>Generic JNull\<close> is the
  \<^verbatim>\<open>nil\<close> interface), or the
  \<^verbatim>\<open>[]TronTransactionInfo\<close> of the REST translator. The fields \<^verbatim>\<open>ID\<close> and
  \<^verbatim>\<open>Error\<close> only ever hold generic documents (\<open>JNull\<close> is \<^verbatim>\<open>nil\<close>); the
  \<^verbatim>\<open>map[string]interface{}\<close> of a local error is the object it is written as.
\<close>

datatype goval = Generic json | TxInfos "TronTransactionInfo slice"

record JSONRPCResponse =
  resp_Jsonrpc :: string
  resp_ID :: json
  Result :: goval
  Error :: json

definition zero_request :: JSONRPCRequest where
  "zero_request = \<lparr>Jsonrpc = [], Method = [], Params = None, ID = JNull\<rparr>"

definition zero_response :: JSONRPCResponse where
  "zero_response = \<lparr>resp_Jsonrpc = [], resp_ID = JNull, Result = Generic JNull, Error = JNull\<rparr>"

definition zero_txinfo :: TronTransactionInfo where
  "zero_txinfo = \<lparr>InternalTransactions = None, tx_Id = [], BlockNumber = 0, TransactionHash = []\<rparr>"

section \<open>Decoding: \<^verbatim>\<open>json.Unmarshal\<close> into the program's types\<close>

text \<open>
  Each decoder takes the document and the target's current contents and returns the
  new contents, or \<open>None\<close> where \<^verbatim>\<open>json.Unmarshal\<close> returns an error. A JSON
  \<^verbatim>\<open>null\<close> leaves a string or an integer as it is and sets a slice or an interface
  to \<^verbatim>\<open>nil\<close>, without an error.
\<close>

fun unmarshal_string :: "json \<Rightarrow> string \<Rightarrow> string option" where
  "unmarshal_string (JString s) cur = Some s"
| "unmarshal_string JNull cur = Some cur"
| "unmarshal_string _ cur = None"

fun unmarshal_int64 :: "json \<Rightarrow> int \<Rightarrow> int option" where
  "unmarshal_int64 (JInt n) cur =
     (if - (2 ^ 63) \<le> n \<and> n < 2 ^ 63 then Some n else None)"
| "unmarshal_int64 JNull cur = Some cur"
| "unmarshal_int64 _ cur = None"

fun unmarshal_raws :: "json \<Rightarrow> (json slice) option" where
  "unmarshal_raws (JArray vs) = Some (Some vs)"
| "unmarshal_raws JNull = Some None"
| "unmarshal_raws _ = None"

text \<open>
  Decoding into an \<^verbatim>\<open>interface{}\<close>. The Go value that results is written here as the
  document \<^verbatim>\<open>json.Marshal\<close> writes for it. A number becomes a \<^verbatim>\<open>float64\<close>: the
  library's conversion of a number literal gives the number that is written for that
  \<^verbatim>\<open>float64\<close> (an integer above \<open>2\<^sup>5\<^sup>3\<close> is rounded), or an error for a literal beyond
  the range of \<^verbatim>\<open>float64\<close>. The conversion is the library's own arithmetic; it is a
  parameter \<open>conv\<close> of the decoder. An object becomes a map: of two members with the
  same key the later one stays, and the members are written sorted by key. An error
  in any element or member is the error of the whole.
\<close>

datatype number = IntLit int | OtherLit string

fun number_json :: "number \<Rightarrow> json" where
  "number_json (IntLit n) = JInt n"
| "number_json (OtherLit t) = JFloat t"

fun last_wins :: "(string \<times> json) list \<Rightarrow> (string \<times> json) list" where
  "last_wins [] = []"
| "last_wins (kv # kvs) =
     (if fst kv \<in> set (map fst kvs) then last_wins kvs else kv # last_wins kvs)"

definition as_map :: "(string \<times> json) list \<Rightarrow> (string \<times> json) list" where
  "as_map kvs = sort_key fst (last_wins kvs)"

function unmarshal_interface :: "(number \<Rightarrow> number option) \<Rightarrow> json \<Rightarrow> json option"
  and unmarshal_elements :: "(number \<Rightarrow> number option) \<Rightarrow> json list \<Rightarrow> json list option"
  and unmarshal_members ::
    "(number \<Rightarrow> number option) \<Rightarrow> (string \<times> json) list \<Rightarrow> (string \<times> json) list option"
where
  "unmarshal_interface conv JNull = Some JNull"
| "unmarshal_interface conv (JBool b) = Some (JBool b)"
| "unmarshal_interface conv (JInt n) = map_option number_json (conv (IntLit n))"
| "unmarshal_interface conv (JFloat t) = map_option number_json (conv (OtherLit t))"
| "unmarshal_interface conv (JString s) = Some (JString s)"
| "unmarshal_interface conv (JArray vs) = map_option JArray (unmarshal_elements conv vs)"
| "unmarshal_interface conv (JObject kvs) =
     map_option (\<lambda>m. JObject (as_map m)) (unmarshal_members conv kvs)"
| "unmarshal_elements conv [] = Some []"
| "unmarshal_elements conv (v # vs) =
     (case unmarshal_interface conv v of
        None \<Rightarrow> None
      | Some x \<Rightarrow>
          (case unmarshal_elements conv vs of None \<Rightarrow> None | Some xs \<Rightarrow> Some (x # xs)))"
| "unmarshal_members conv [] = Some []"
| "unmarshal_members conv ((k, v) # kvs) =
     (case unmarshal_interface conv v of
        None \<Rightarrow> None
      | Some x \<Rightarrow>
          (case unmarshal_members conv kvs of
             None \<Rightarrow> None
           | Some xs \<Rightarrow> Some ((k, x) # xs)))"
  by pat_completeness auto
termination
  by (relation "measure (\<lambda>a. case a of
        Inl (conv, v) \<Rightarrow> size v
      | Inr (Inl (conv, vs)) \<Rightarrow> size_list size vs
      | Inr (Inr (conv, kvs)) \<Rightarrow> size_list (size_prod (\<lambda>k. 0) size) kvs)") auto

text \<open>
  A member of an object sets the field whose tag equals its key up to the case of
  ASCII letters; a key that matches no field is skipped. (The library also accepts
  two non-ASCII spellings of \<^verbatim>\<open>s\<close> and \<^verbatim>\<open>k\<close>; here such a key is skipped.)
\<close>

definition lower :: "char \<Rightarrow> char" where
  "lower c = (let n = (of_char c :: nat) in
     if 65 \<le> n \<and> n \<le> 90 then char_of (n + 32) else c)"

definition foldName :: "string \<Rightarrow> string" where
  "foldName k = map lower k"

fun decode_fields :: "('r \<Rightarrow> string \<times> json \<Rightarrow> 'r option) \<Rightarrow> 'r \<Rightarrow> (string \<times> json) list \<Rightarrow> 'r option" where
  "decode_fields f r [] = Some r"
| "decode_fields f r (kv # kvs) =
     (case f r kv of None \<Rightarrow> None | Some r' \<Rightarrow> decode_fields f r' kvs)"

fun set_request_field :: "JSONRPCRequest \<Rightarrow> string \<times> json \<Rightarrow> JSONRPCRequest option" where
  "set_request_field req (k, v) =
     (if foldName k = ''jsonrpc'' then
        map_option (\<lambda>s. req\<lparr>Jsonrpc := s\<rparr>) (unmarshal_string v (Jsonrpc req))
      else if foldName k = ''method'' then
        map_option (\<lambda>s. req\<lparr>Method := s\<rparr>) (unmarshal_string v (Method req))
      else if foldName k = ''params'' then
        map_option (\<lambda>ps. req\<lparr>Params := ps\<rparr>) (unmarshal_raws v)
      else if foldName k = ''id'' then Some (req\<lparr>ID := v\<rparr>)
      else Some req)"

definition unmarshal_request :: "json \<Rightarrow> JSONRPCRequest option" where
  "unmarshal_request v =
     (case v of
        JNull \<Rightarrow> Some zero_request
      | JObject kvs \<Rightarrow> decode_fields set_request_field zero_request kvs
      | _ \<Rightarrow> None)"

text \<open>
  The three \<^verbatim>\<open>interface{}\<close> fields of a Response are decoded by \<open>dec\<close>, the decoder
  into an \<^verbatim>\<open>interface{}\<close>.
\<close>

fun set_response_field ::
    "(json \<Rightarrow> json option) \<Rightarrow> JSONRPCResponse \<Rightarrow> string \<times> json \<Rightarrow> JSONRPCResponse option" where
  "set_response_field dec resp (k, v) =
     (if foldName k = ''jsonrpc'' then
        map_option (\<lambda>s. resp\<lparr>resp_Jsonrpc := s\<rparr>) (unmarshal_string v (resp_Jsonrpc resp))
      else if foldName k = ''id'' then map_option (\<lambda>x. resp\<lparr>resp_ID := x\<rparr>) (dec v)
      else if foldName k = ''result'' then map_option (\<lambda>x. resp\<lparr>Result := Generic x\<rparr>) (dec v)
      else if foldName k = ''error'' then map_option (\<lambda>x. resp\<lparr>Error := x\<rparr>) (dec v)
      else Some resp)"

definition unmarshal_response :: "(json \<Rightarrow> json option) \<Rightarrow> json \<Rightarrow> JSONRPCResponse option" where
  "unmarshal_response dec v =
     (case v of
        JNull \<Rightarrow> Some zero_response
      | JObject kvs \<Rightarrow> decode_fields (set_response_field dec) zero_response kvs
      | _ \<Rightarrow> None)"

fun set_txinfo_field :: "TronTransactionInfo \<Rightarrow> string \<times> json \<Rightarrow> TronTransactionInfo option" where
  "set_txinfo_field t (k, v) =
     (if foldName k = ''internal_transactions'' then
        map_option (\<lambda>x. t\<lparr>InternalTransactions := x\<rparr>) (unmarshal_raws v)
      else if foldName k = ''id'' then
        map_option (\<lambda>s. t\<lparr>tx_Id := s\<rparr>) (unmarshal_string v (tx_Id t))
      else if foldName k = ''blocknumber'' then
        map_option (\<lambda>n. t\<lparr>BlockNumber := n\<rparr>) (unmarshal_int64 v (BlockNumber t))
      else if foldName k = ''transactionhash'' then
        map_option (\<lambda>s. t\<lparr>TransactionHash := s\<rparr>) (unmarshal_string v (TransactionHash t))
      else Some t)"

definition unmarshal_txinfo :: "json \<Rightarrow> TronTransactionInfo option" where
  "unmarshal_txinfo v =
     (case v of
        JNull \<Rightarrow> Some zero_txinfo
      | JObject kvs \<Rightarrow> decode_fields set_txinfo_field zero_txinfo kvs
      | _ \<Rightarrow> None)"

text \<open>Decoding into a slice: every element has to decode.\<close>

fun unmarshal_all :: "(json \<Rightarrow> 'a option) \<Rightarrow> json list \<Rightarrow> 'a list option" where
  "unmarshal_all dec [] = Some []"
| "unmarshal_all dec (v # vs) =
     (case dec v of
        None \<Rightarrow> None
      | Some x \<Rightarrow> (case unmarshal_all dec vs of None \<Rightarrow> None | Some xs \<Rightarrow> Some (x # xs)))"

fun unmarshal_slice :: "(json \<Rightarrow> 'a option) \<Rightarrow> json \<Rightarrow> ('a slice) option" where
  "unmarshal_slice dec (JArray vs) = map_option Some (unmarshal_all dec vs)"
| "unmarshal_slice dec JNull = Some None"
| "unmarshal_slice dec _ = None"

fun unmarshal :: "(json \<Rightarrow> 'a option) \<Rightarrow> bytes \<Rightarrow> 'a option" where
  "unmarshal dec NotJSON = None"
| "unmarshal dec (JSON v) = dec v"

section \<open>Encoding: what \<^verbatim>\<open>json.Marshal\<close> writes for the program's types\<close>

definition marshal_raws :: "json slice \<Rightarrow> json" where
  "marshal_raws s = (case s of None \<Rightarrow> JNull | Some vs \<Rightarrow> JArray vs)"

definition marshal_request :: "JSONRPCRequest \<Rightarrow> json" where
  "marshal_request req = JObject
     [(''jsonrpc'', JString (Jsonrpc req)), (''method'', JString (Method req)),
      (''params'', marshal_raws (Params req)), (''id'', ID req)]"

definition marshal_txinfo :: "TronTransactionInfo \<Rightarrow> json" where
  "marshal_txinfo t = JObject
     [(''internal_transactions'', marshal_raws (InternalTransactions t)),
      (''id'', JString (tx_Id t)), (''blockNumber'', JInt (BlockNumber t)),
      (''transactionHash'', JString (TransactionHash t))]"

fun marshal_goval :: "goval \<Rightarrow> json" where
  "marshal_goval (Generic v) = v"
| "marshal_goval (TxInfos None) = JNull"
| "marshal_goval (TxInfos (Some ts)) = JArray (map marshal_txinfo ts)"

text \<open>
  \<^verbatim>\<open>omitempty\<close> leaves out \<^verbatim>\<open>result\<close> and \<^verbatim>\<open>error\<close> when the interface is
  \<^verbatim>\<open>nil\<close>; an interface holding a slice is never \<^verbatim>\<open>nil\<close>.
\<close>

definition has_result :: "JSONRPCResponse \<Rightarrow> bool" where
  "has_result r = (Result r \<noteq> Generic JNull)"

definition has_error :: "JSONRPCResponse \<Rightarrow> bool" where
  "has_error r = (Error r \<noteq> JNull)"

definition marshal_response :: "JSONRPCResponse \<Rightarrow> json" where
  "marshal_response r = JObject
     ([(''jsonrpc'', JString (resp_Jsonrpc r)), (''id'', resp_ID r)]
      @ (if has_result r then [(''result'', marshal_goval (Result r))] else [])
      @ (if has_error r then [(''error'', Error r)] else []))"

section \<open>The world outside the process\<close>

text \<open>
  What the program takes from outside its source: the two endpoints read from the
  environment, the answer of \<^verbatim>\<open>http.Post\<close> to a URL and a body (the reply's bytes,
  or a transport error), the answer of \<^verbatim>\<open>os.ReadFile\<close> to a path, and the
  library's conversion of a number literal for an \<^verbatim>\<open>interface{}\<close>. Every outbound
  call is recorded as an event, so that a statement can say which calls a request
  caused.
\<close>

record world =
  tronJSONRPCEndpoint :: string
  tronRestEndpoint :: string
  http_Post :: "string \<Rightarrow> json \<Rightarrow> bytes result"
  os_ReadFile :: "string \<Rightarrow> bytes result"
  convertNumber :: "number \<Rightarrow> number option"

abbreviation interface_of :: "world \<Rightarrow> json \<Rightarrow> json option" where
  "interface_of w \<equiv> unmarshal_interface (convertNumber w)"

datatype io_event = Post string json | ReadFile string

definition traceDir :: string where
  "traceDir = ''/project/trace''"

section \<open>Building responses\<close>

definition error_object :: "int \<Rightarrow> string \<Rightarrow> json" where
  "error_object code msg = JObject [(''code'', JInt code), (''message'', JString msg)]"

definition jsonError :: "json \<Rightarrow> int \<Rightarrow> string \<Rightarrow> JSONRPCResponse" where
  "jsonError i code msg =
     \<lparr>resp_Jsonrpc = ''2.0'', resp_ID = i, Result = Generic JNull, Error = error_object code msg\<rparr>"

definition createErrorResponsesForBatch ::
    "JSONRPCRequest list \<Rightarrow> int \<Rightarrow> string \<Rightarrow> JSONRPCResponse list" where
  "createErrorResponsesForBatch reqs code msg = map (\<lambda>r. jsonError (ID r) code msg) reqs"

text \<open>The code of a response's error object, when it has one.\<close>

definition error_code :: "JSONRPCResponse \<Rightarrow> int option" where
  "error_code r =
     (case Error r of
        JObject kvs \<Rightarrow> (case map_of kvs ''code'' of Some (JInt c) \<Rightarrow> Some c | _ \<Rightarrow> None)
      | _ \<Rightarrow> None)"

section \<open>The executors\<close>

subsection \<open>REST translator\<close>

definition handleGetTransactionInfoByBlockNum ::
    "world \<Rightarrow> JSONRPCRequest \<Rightarrow> JSONRPCResponse \<times> io_event list" where
  "handleGetTransactionInfoByBlockNum w req =
     (case Params req of
        None \<Rightarrow> (jsonError (ID req) (- 32602) ''Invalid params'', [])
      | Some [] \<Rightarrow> (jsonError (ID req) (- 32602) ''Invalid params'', [])
      | Some (p # _) \<Rightarrow>
          (case unmarshal_int64 p 0 of
             None \<Rightarrow>
               (jsonError (ID req) (- 32602) ''Invalid params: must be integer block number'', [])
           | Some blockId \<Rightarrow>
               (let postData = JObject [(''num'', JInt blockId)];
                    txInfoBlockUrl = tronRestEndpoint w @ ''/wallet/gettransactioninfobyblocknum''
                in case http_Post w txInfoBlockUrl postData of
                     Err e \<Rightarrow>
                       (jsonError (ID req) (- 32603) (''Internal error: '' @ e),
                        [Post txInfoBlockUrl postData])
                   | Ok respBody \<Rightarrow>
                       (case unmarshal (unmarshal_slice unmarshal_txinfo) respBody of
                          None \<Rightarrow>
                            (jsonError (ID req) (- 32603) ''Invalid response from TronNode REST'',
                             [Post txInfoBlockUrl postData])
                        | Some respJson \<Rightarrow>
                            (\<lparr>resp_Jsonrpc = ''2.0'', resp_ID = ID req,
                              Result = TxInfos respJson, Error = JNull\<rparr>,
                             [Post txInfoBlockUrl postData])))))"

subsection \<open>Trace file fetcher\<close>

definition handleDebugTransactionTrace ::
    "world \<Rightarrow> JSONRPCRequest \<Rightarrow> JSONRPCResponse \<times> io_event list" where
  "handleDebugTransactionTrace w req =
     (case Params req of
        None \<Rightarrow> (jsonError (ID req) (- 32602) ''Invalid params'', [])
      | Some [] \<Rightarrow> (jsonError (ID req) (- 32602) ''Invalid params'', [])
      | Some (p # _) \<Rightarrow>
          (case unmarshal_string p [] of
             None \<Rightarrow> (jsonError (ID req) (- 32602) ''Invalid params: must be string TxId'', [])
           | Some txId \<Rightarrow>
               (let filePath = traceDir @ ''/'' @ txId @ ''.json''
                in case os_ReadFile w filePath of
                     Err e \<Rightarrow>
                       (jsonError (ID req) (- 32603) ''cannot read trace file'', [ReadFile filePath])
                   | Ok fileData \<Rightarrow>
                       (case unmarshal (interface_of w) fileData of
                          None \<Rightarrow>
                            (jsonError (ID req) (- 32603) ''Invalid JSON in trace file'',
                             [ReadFile filePath])
                        | Some traceJson \<Rightarrow>
                            (\<lparr>resp_Jsonrpc = ''2.0'', resp_ID = ID req,
                              Result = Generic traceJson, Error = JNull\<rparr>,
                             [ReadFile filePath])))))"

subsection \<open>Forward proxy, single call\<close>

definition forwardAndReturn ::
    "world \<Rightarrow> JSONRPCRequest \<Rightarrow> string \<Rightarrow> JSONRPCResponse \<times> io_event list" where
  "forwardAndReturn w req targetURL =
     (let reqBytes = marshal_request req
      in case http_Post w targetURL reqBytes of
           Err e \<Rightarrow>
             (jsonError (ID req) (- 32603) (''Internal error: '' @ e), [Post targetURL reqBytes])
         | Ok respBody \<Rightarrow>
             (case unmarshal (unmarshal_response (interface_of w)) respBody of
                None \<Rightarrow>
                  (jsonError (ID req) (- 32603) ''Invalid response from forwarded service'',
                   [Post targetURL reqBytes])
              | Some forwardResp \<Rightarrow>
                  (forwardResp\<lparr>resp_ID := ID req\<rparr>, [Post targetURL reqBytes])))"

subsection \<open>Single call\<close>

definition handleSingleRequest ::
    "world \<Rightarrow> JSONRPCRequest \<Rightarrow> JSONRPCResponse \<times> io_event list" where
  "handleSingleRequest w req =
     (if Jsonrpc req \<noteq> ''2.0'' then (jsonError (ID req) (- 32600) ''Invalid Request'', [])
      else if Method req = ''debug_traceBlockByHash'' then
        handleGetTransactionInfoByBlockNum w req
      else if Method req = ''eth_debugTransactionTrace'' then
        handleDebugTransactionTrace w req
      else forwardAndReturn w req (tronJSONRPCEndpoint w))"

subsection \<open>Batches\<close>

text \<open>The REST translator over a batch: one call after the other, in batch order.\<close>

fun handleBatchGetTransactionInfo ::
    "world \<Rightarrow> JSONRPCRequest list \<Rightarrow> JSONRPCResponse list \<times> io_event list" where
  "handleBatchGetTransactionInfo w [] = ([], [])"
| "handleBatchGetTransactionInfo w (r # rs) =
     (let (resp, ev) = handleGetTransactionInfoByBlockNum w r;
          (resps, evs) = handleBatchGetTransactionInfo w rs
      in (resp # resps, ev @ evs))"

text \<open>
  The trace fetcher over a batch starts one goroutine per index and waits for all of
  them. \<open>traceTask w reqs idx\<close> is the body of the goroutine of index \<open>idx\<close>: what it
  stores into \<^verbatim>\<open>responses[idx]\<close>, and the file it reads. A goroutine shares nothing
  with the others but the slice of slots, and writes its own slot once, as its last
  step; so a run is the order in which the goroutines finish, the list \<open>sched\<close>, chosen
  by the Go scheduler, in which every index below \<^verbatim>\<open>len(reqs)\<close> stands once.
\<close>

definition traceTask ::
    "world \<Rightarrow> JSONRPCRequest list \<Rightarrow> nat \<Rightarrow> JSONRPCResponse \<times> io_event list" where
  "traceTask w reqs idx =
     (case Params (reqs ! idx) of
        None \<Rightarrow> (jsonError (ID (reqs ! idx)) (- 32602) ''Invalid params'', [])
      | Some [] \<Rightarrow> (jsonError (ID (reqs ! idx)) (- 32602) ''Invalid params'', [])
      | Some (p # _) \<Rightarrow>
          (case unmarshal_string p [] of
             None \<Rightarrow>
               (jsonError (ID (reqs ! idx)) (- 32602) ''Invalid params: must be string TxId'', [])
           | Some txId \<Rightarrow>
               (let filePath = traceDir @ ''/'' @ txId @ ''.json''
                in case os_ReadFile w filePath of
                     Err e \<Rightarrow>
                       (jsonError (ID (reqs ! idx)) (- 32603) ''cannot read trace file'',
                        [ReadFile filePath])
                   | Ok fileData \<Rightarrow>
                       (case unmarshal (interface_of w) fileData of
                          None \<Rightarrow>
                            (jsonError (ID (reqs ! idx)) (- 32603) ''Invalid JSON in trace file'',
                             [ReadFile filePath])
                        | Some traceJson \<Rightarrow>
                            (\<lparr>resp_Jsonrpc = ''2.0'', resp_ID = ID (reqs ! idx),
                              Result = Generic traceJson, Error = JNull\<rparr>,
                             [ReadFile filePath])))))"

definition runTask ::
    "world \<Rightarrow> JSONRPCRequest list \<Rightarrow> JSONRPCResponse list \<times> io_event list \<Rightarrow> nat
      \<Rightarrow> JSONRPCResponse list \<times> io_event list" where
  "runTask w reqs st idx =
     (let (resp, ev) = traceTask w reqs idx
      in ((fst st)[idx := resp], snd st @ ev))"

definition handleBatchDebugTransactionTrace ::
    "world \<Rightarrow> nat list \<Rightarrow> JSONRPCRequest list \<Rightarrow> JSONRPCResponse list \<times> io_event list" where
  "handleBatchDebugTransactionTrace w sched reqs =
     foldl (runTask w reqs) (replicate (length reqs) zero_response, []) sched"

text \<open>A run of the goroutines of a batch of \<open>n\<close> calls.\<close>

definition schedule :: "nat \<Rightarrow> nat list \<Rightarrow> bool" where
  "schedule n sched = (distinct sched \<and> set sched = {0..<n})"

definition forwardBatchToJSONRPC ::
    "world \<Rightarrow> JSONRPCRequest list \<Rightarrow> json list \<Rightarrow> string
      \<Rightarrow> JSONRPCResponse slice \<times> io_event list" where
  "forwardBatchToJSONRPC w reqs originalArr targetURL =
     (let originalBody = JArray originalArr
      in case http_Post w targetURL originalBody of
           Err e \<Rightarrow>
             (Some (createErrorResponsesForBatch reqs (- 32603) (''Internal error: '' @ e)),
              [Post targetURL originalBody])
         | Ok respBody \<Rightarrow>
             (case unmarshal (unmarshal_slice (unmarshal_response (interface_of w))) respBody of
                Some batchResp \<Rightarrow> (batchResp, [Post targetURL originalBody])
              | None \<Rightarrow>
                  (case unmarshal (unmarshal_response (interface_of w)) respBody of
                     Some singleResp \<Rightarrow>
                       (if resp_ID singleResp \<noteq> JNull
                        then (Some [singleResp], [Post targetURL originalBody])
                        else (Some (createErrorResponsesForBatch reqs (- 32603)
                                      ''Invalid response from forwarded service''),
                              [Post targetURL originalBody]))
                   | None \<Rightarrow>
                       (Some (createErrorResponsesForBatch reqs (- 32603)
                                ''Invalid response from forwarded service''),
                        [Post targetURL originalBody]))))"

section \<open>The dispatcher\<close>

definition parseSingleRequest :: "(string \<times> json) list \<Rightarrow> JSONRPCRequest option" where
  "parseSingleRequest v = unmarshal_request (JObject v)"

definition parse_error_in_batch :: JSONRPCResponse where
  "parse_error_in_batch =
     \<lparr>resp_Jsonrpc = ''2.0'', resp_ID = JNull, Result = Generic JNull,
      Error = error_object (- 32700) ''Parse error: invalid JSON in batch''\<rparr>"

fun parseBatchLoop ::
    "json list \<Rightarrow> JSONRPCRequest list \<Rightarrow> JSONRPCResponse list
      \<Rightarrow> JSONRPCRequest list \<times> JSONRPCResponse list" where
  "parseBatchLoop [] reqs errors = (reqs, errors)"
| "parseBatchLoop (elem # arr) reqs errors =
     (case unmarshal_request elem of
        None \<Rightarrow> parseBatchLoop arr reqs (errors @ [parse_error_in_batch])
      | Some req \<Rightarrow> parseBatchLoop arr (reqs @ [req]) errors)"

definition parseBatchRequests ::
    "json list \<Rightarrow> JSONRPCRequest slice \<times> JSONRPCResponse slice" where
  "parseBatchRequests arr =
     (let (reqs, errors) = parseBatchLoop arr [] []
      in if length errors > 0 then (None, Some errors) else (Some reqs, None))"

text \<open>
  What the handler writes as the body of the HTTP reply: nothing, one Response, or a
  sequence of Responses. \<open>Panic\<close> stands for the run-time panic of an index out of
  range.
\<close>

datatype written = Empty | Single JSONRPCResponse | Batch "JSONRPCResponse slice" | Panic

definition sendError :: "json \<Rightarrow> int \<Rightarrow> string \<Rightarrow> written" where
  "sendError i code message =
     Single \<lparr>resp_Jsonrpc = ''2.0'', resp_ID = i, Result = Generic JNull,
             Error = error_object code message\<rparr>"

definition sendJSONRPCResponse :: "JSONRPCResponse \<Rightarrow> written" where
  "sendJSONRPCResponse resp = (if resp_ID resp = JNull then Empty else Single resp)"

definition sendBatchResponse :: "JSONRPCResponse slice \<Rightarrow> written" where
  "sendBatchResponse responses = Batch responses"

text \<open>The batch branch of \<^verbatim>\<open>handleJSONRPC\<close>, after the test for the empty array.\<close>

definition handleBatch :: "world \<Rightarrow> nat list \<Rightarrow> json list \<Rightarrow> written \<times> io_event list" where
  "handleBatch w sched v =
     (case parseBatchRequests v of
        (_, Some errs) \<Rightarrow> (sendBatchResponse (Some errs), [])
      | (None, None) \<Rightarrow> (Panic, [])
      | (Some [], None) \<Rightarrow> (Panic, [])
      | (Some (r0 # rest), None) \<Rightarrow>
          (let reqs = r0 # rest; allMethod = Method r0
           in if list_ex (\<lambda>r. Method r \<noteq> allMethod) reqs then
                (sendBatchResponse
                   (Some (createErrorResponsesForBatch reqs (- 32601) ''Mixed methods not supported'')),
                 [])
              else if allMethod = ''debug_traceBlockByHash'' then
                (let (responses, ev) = handleBatchGetTransactionInfo w reqs
                 in (sendBatchResponse (Some responses), ev))
              else if allMethod = ''eth_debugTransactionTrace'' then
                (let (responses, ev) = handleBatchDebugTransactionTrace w sched reqs
                 in (sendBatchResponse (Some responses), ev))
              else
                (let (responses, ev) = forwardBatchToJSONRPC w reqs v (tronJSONRPCEndpoint w)
                 in (sendBatchResponse responses, ev))))"

definition handleJSONRPC :: "world \<Rightarrow> nat list \<Rightarrow> bytes result \<Rightarrow> written \<times> io_event list" where
  "handleJSONRPC w sched body =
     (case body of
        Err e \<Rightarrow> (sendError JNull (- 32603) ''Internal error: unable to read request body'', [])
      | Ok NotJSON \<Rightarrow> (sendError JNull (- 32700) ''Parse error: invalid JSON'', [])
      | Ok (JSON (JObject v)) \<Rightarrow>
          (case parseSingleRequest v of
             None \<Rightarrow> (sendError JNull (- 32700) ''Parse error: invalid request object'', [])
           | Some req \<Rightarrow>
               (let (resp, ev) = handleSingleRequest w req in (sendJSONRPCResponse resp, ev)))
      | Ok (JSON (JArray v)) \<Rightarrow>
          (if length v = 0 then (Batch (Some []), []) else handleBatch w sched v)
      | Ok (JSON _) \<Rightarrow> (sendError JNull (- 32700) ''Parse error: invalid structure'', []))"

section \<open>Vocabulary of the statements\<close>

text \<open>The elements of a batch that do not decode into a Call.\<close>

definition failing :: "json list \<Rightarrow> json list" where
  "failing arr = filter (\<lambda>e. unmarshal_request e = None) arr"

text \<open>The message of a response's error object, when it has one.\<close>

definition error_message :: "JSONRPCResponse \<Rightarrow> string option" where
  "error_message r =
     (case Error r of
        JObject kvs \<Rightarrow> (case map_of kvs ''message'' of Some (JString m) \<Rightarrow> Some m | _ \<Rightarrow> None)
      | _ \<Rightarrow> None)"

text \<open>
  The member of an object that a field with tag \<open>name\<close> is decoded from: the first one
  whose key equals the tag up to the case of ASCII letters, \<^verbatim>\<open>null\<close> when there is
  none.
\<close>

definition member_named :: "string \<Rightarrow> (string \<times> json) list \<Rightarrow> json" where
  "member_named name kvs =
     (case find (\<lambda>kv. foldName (fst kv) = name) kvs of None \<Rightarrow> JNull | Some kv \<Rightarrow> snd kv)"

text \<open>Responses that stand index by index for the Calls, each with its Call's id.\<close>

definition aligned :: "JSONRPCRequest list \<Rightarrow> JSONRPCResponse list \<Rightarrow> bool" where
  "aligned reqs rs = list_all2 (\<lambda>c r. resp_ID r = ID c) reqs rs"

text \<open>A parameter that is an integer of the signed 64-bit range.\<close>

fun is_int64 :: "json \<Rightarrow> bool" where
  "is_int64 (JInt n) = (- (2 ^ 63) \<le> n \<and> n < 2 ^ 63)"
| "is_int64 _ = False"

text \<open>The keys of the members of a transaction-info record as it is written.\<close>

fun member_keys :: "json \<Rightarrow> string list" where
  "member_keys (JObject kvs) = map fst kvs"
| "member_keys _ = []"

text \<open>
  A Response of the shape the protocol asks for: version "2.0", and on the wire exactly
  one of \<^verbatim>\<open>result\<close> and \<^verbatim>\<open>error\<close>.
\<close>

definition well_formed :: "JSONRPCResponse \<Rightarrow> bool" where
  "well_formed r = (resp_Jsonrpc r = ''2.0'' \<and> (has_result r \<noteq> has_error r))"

subsection \<open>Worlds and requests of the examples\<close>

text \<open>
  The number conversion of the examples. An integer of at most \<open>2\<^sup>5\<^sup>3\<close> in absolute
  value is held by a \<^verbatim>\<open>float64\<close> as it is and written back as it was read: there the
  conversion is the library's. The examples hold no other number; on those the
  conversion gives an error, which is not what the library does for all of them.
\<close>

definition small_integers :: "number \<Rightarrow> number option" where
  "small_integers x =
     (case x of
        IntLit n \<Rightarrow> if - (2 ^ 53) \<le> n \<and> n \<le> 2 ^ 53 then Some (IntLit n) else None
      | OtherLit t \<Rightarrow> None)"

text \<open>A world in which every outbound call fails.\<close>

definition offline :: world where
  "offline =
     \<lparr>tronJSONRPCEndpoint = ''http://tron-node:8545/jsonrpc'',
      tronRestEndpoint = ''http://tron-node:8090'',
      http_Post = (\<lambda>url b. Err ''connection refused''),
      os_ReadFile = (\<lambda>path. Err ''no such file''),
      convertNumber = small_integers\<rparr>"

text \<open>A world whose HTTP endpoints answer every call with the same bytes.\<close>

definition answering :: "bytes \<Rightarrow> world" where
  "answering reply = offline\<lparr>http_Post := (\<lambda>url b. Ok reply)\<rparr>"

text \<open>A world with one readable file.\<close>

definition with_file :: "string \<Rightarrow> bytes \<Rightarrow> world" where
  "with_file name content =
     offline\<lparr>os_ReadFile := (\<lambda>path. if path = name then Ok content else Err ''no such file'')\<rparr>"

definition call :: "string \<Rightarrow> string \<Rightarrow> json list \<Rightarrow> int \<Rightarrow> json" where
  "call version name params i = JObject
     [(''id'', JInt i), (''jsonrpc'', JString version), (''method'', JString name),
      (''params'', JArray params)]"

definition reply_object :: "json \<Rightarrow> json" where
  "reply_object i = JObject
     [(''id'', i), (''jsonrpc'', JString ''2.0''), (''result'', JString ''0x10'')]"

text \<open>The document of a trace file.\<close>

definition trace_doc :: json where
  "trace_doc = JObject [(''gas'', JInt 21000)]"

text \<open>An upstream's answer to a batch it rejects as a whole: one error object, null id.\<close>

definition upstream_error :: json where
  "upstream_error = JObject
     [(''error'', JObject [(''code'', JInt (- 32600)), (''message'', JString ''Invalid Request'')]),
      (''id'', JNull), (''jsonrpc'', JString ''2.0'')]"

text \<open>A transaction-info record of the REST endpoint, with fields the struct does not have.\<close>

definition rest_record :: json where
  "rest_record = JObject
     [(''blockNumber'', JInt 7), (''blockTimeStamp'', JInt 1700000000000), (''fee'', JInt 5),
      (''id'', JString ''ab'')]"

text \<open>
  An upstream reply with a mismatched id, a \<^verbatim>\<open>null\<close> result and a member that the
  Response struct does not declare.
\<close>

definition sparse_reply :: json where
  "sparse_reply = JObject
     [(''id'', JInt 99), (''jsonrpc'', JString ''2.0''), (''result'', JNull),
      (''took'', JInt 3)]"


section \<open>Properties\<close>

subsection \<open>Decoding a batch\<close>

lemma parseBatchLoop_eq:
  "parseBatchLoop arr reqs errors =
     (reqs @ List.map_filter unmarshal_request arr,
      errors @ replicate (length (failing arr)) parse_error_in_batch)"
proof (induction arr arbitrary: reqs errors)
  case Nil
  show ?case by (simp add: failing_def List.map_filter_simps)
next
  case (Cons elem arr)
  show ?case
  proof (cases "unmarshal_request elem")
    case None
    then show ?thesis
      by (simp add: Cons.IH failing_def List.map_filter_simps replicate_app_Cons_same)
  next
    case (Some req)
    then show ?thesis
      by (simp add: Cons.IH failing_def List.map_filter_simps)
  qed
qed

lemma parseBatchRequests_eq:
  "parseBatchRequests arr =
     (if failing arr = [] then (Some (List.map_filter unmarshal_request arr), None)
      else (None, Some (replicate (length (failing arr)) parse_error_in_batch)))"
  by (simp add: parseBatchRequests_def parseBatchLoop_eq)

lemma unmarshal_all_Some:
  "unmarshal_all dec arr = Some xs \<Longrightarrow>
     List.map_filter dec arr = xs \<and> filter (\<lambda>e. dec e = None) arr = [] \<and> length xs = length arr"
  by (induction arr arbitrary: xs) (auto simp: List.map_filter_simps split: option.splits)

lemma parseBatchRequests_all:
  "unmarshal_all unmarshal_request arr = Some reqs \<Longrightarrow> parseBatchRequests arr = (Some reqs, None)"
  using unmarshal_all_Some [of unmarshal_request arr reqs]
  by (simp add: parseBatchRequests_eq failing_def)

lemma unmarshal_call:
  "unmarshal_request (call version name params i) =
     Some \<lparr>Jsonrpc = version, Method = name, Params = Some params, ID = JInt i\<rparr>"
  by (simp add: call_def unmarshal_request_def zero_request_def foldName_def lower_def)

lemma small_integer [simp]:
  "- (2 ^ 53) \<le> n \<Longrightarrow> n \<le> 2 ^ 53 \<Longrightarrow> small_integers (IntLit n) = Some (IntLit n)"
  by (simp add: small_integers_def)

lemma convertNumber_examples [simp]:
  "convertNumber offline = small_integers"
  "convertNumber (answering reply) = small_integers"
  "convertNumber (with_file name content) = small_integers"
  by (simp_all add: offline_def answering_def with_file_def)

lemma interface_trace_doc [simp]:
  "unmarshal_interface small_integers trace_doc = Some trace_doc"
  by (simp add: trace_doc_def as_map_def)

lemma unmarshal_reply_object:
  "- (2 ^ 53) \<le> n \<Longrightarrow> n \<le> 2 ^ 53 \<Longrightarrow>
   unmarshal_response (unmarshal_interface small_integers) (reply_object (JInt n)) =
     Some \<lparr>resp_Jsonrpc = ''2.0'', resp_ID = JInt n, Result = Generic (JString ''0x10''),
           Error = JNull\<rparr>"
  by (simp add: reply_object_def unmarshal_response_def zero_response_def foldName_def lower_def)

text \<open>
  C1. When at least one element of a non-empty batch does not decode into a Call, the
  dispatcher answers with parse-error Responses only (code -32700, null id) and calls
  no executor: one Response for each element that failed to decode, so at least one
  and at most as many as the batch has elements. No decoded element contributes a
  Response.
\<close>

theorem C1_decode_failure_policy:
  assumes "unmarshal_request e = None" and "e \<in> set arr"
  shows "handleJSONRPC w sched (Ok (JSON (JArray arr))) =
           (Batch (Some (replicate (length (failing arr)) parse_error_in_batch)), [])
         \<and> 1 \<le> length (failing arr) \<and> length (failing arr) \<le> length arr
         \<and> error_code parse_error_in_batch = Some (- 32700)
         \<and> resp_ID parse_error_in_batch = JNull"
proof -
  from assms have ne: "failing arr \<noteq> []"
    by (auto simp: failing_def filter_empty_conv)
  then have "arr \<noteq> []" by (auto simp: failing_def)
  moreover have "1 \<le> length (failing arr)" using ne by (cases "failing arr") auto
  moreover have "length (failing arr) \<le> length arr" by (simp add: failing_def)
  ultimately show ?thesis using ne
    by (simp add: handleJSONRPC_def handleBatch_def parseBatchRequests_eq sendBatchResponse_def
        error_code_def parse_error_in_batch_def error_object_def)
qed

theorem C1_decode_failure_policy_witness:
  "unmarshal_request (JInt 5) = None
   \<and> handleJSONRPC offline [] (Ok (JSON (JArray [call ''2.0'' ''eth_blockNumber'' [] 1, JInt 5]))) =
       (Batch (Some [parse_error_in_batch]), [])"
proof -
  have e: "unmarshal_request (JInt 5) = None" by (simp add: unmarshal_request_def)
  have f: "failing [call ''2.0'' ''eth_blockNumber'' [] 1, JInt 5] = [JInt 5]"
    by (simp add: failing_def unmarshal_call e)
  show ?thesis
    using C1_decode_failure_policy [OF e, of "[call ''2.0'' ''eth_blockNumber'' [] 1, JInt 5]" offline "[]"]
    by (simp add: e f)
qed

text \<open>
  The answer does not have the length of the batch: a batch of two elements of which
  one does not decode is answered with one Response.
\<close>

theorem C1_counterexample:
  "unmarshal_request (JInt 5) = None
   \<and> fst (handleJSONRPC offline [] (Ok (JSON (JArray [call ''2.0'' ''eth_blockNumber'' [] 1, JInt 5]))))
       = Batch (Some [parse_error_in_batch])
   \<and> length [parse_error_in_batch] \<noteq> length [call ''2.0'' ''eth_blockNumber'' [] 1, JInt 5]"
proof -
  have e: "unmarshal_request (JInt 5) = None" by (simp add: unmarshal_request_def)
  have "parseBatchRequests [call ''2.0'' ''eth_blockNumber'' [] 1, JInt 5] =
          (None, Some [parse_error_in_batch])"
    by (simp add: parseBatchRequests_def unmarshal_call e)
  then show ?thesis
    by (simp add: handleJSONRPC_def handleBatch_def sendBatchResponse_def e)
qed

subsection \<open>Batch homogeneity\<close>

lemma handleBatch_mixed:
  assumes "unmarshal_all unmarshal_request arr = Some reqs"
    and "r \<in> set reqs" and "r' \<in> set reqs" and "Method r \<noteq> Method r'"
  shows "handleBatch w sched arr =
     (Batch (Some (createErrorResponsesForBatch reqs (- 32601) ''Mixed methods not supported'')), [])"
proof -
  from assms(2) obtain r0 rest where reqs: "reqs = r0 # rest" by (cases reqs) auto
  have "\<exists>x \<in> set reqs. Method x \<noteq> Method r0"
  proof (cases "Method r = Method r0")
    case True
    with assms(4) have "Method r' \<noteq> Method r0" by simp
    with assms(3) show ?thesis by blast
  next
    case False
    with assms(2) show ?thesis by blast
  qed
  then have "list_ex (\<lambda>x. Method x \<noteq> Method r0) (r0 # rest)"
    unfolding reqs list_ex_iff by simp
  then show ?thesis
    using parseBatchRequests_all [OF assms(1)]
    by (simp add: handleBatch_def reqs sendBatchResponse_def)
qed

text \<open>
  C3. When the Calls decoded from a batch name at least two distinct methods, the
  dispatcher makes no outbound call (no executor runs) and answers with one Response
  per Call, in batch order. The Response at each index has version "2.0", the id of
  the Call at that index, no result, and the error object with code -32601 and
  message "Mixed methods not supported".
\<close>

theorem C3_mixed_methods_rejected:
  assumes "unmarshal_all unmarshal_request arr = Some reqs"
    and "r \<in> set reqs" and "r' \<in> set reqs" and "Method r \<noteq> Method r'"
  shows "handleJSONRPC w sched (Ok (JSON (JArray arr))) =
           (Batch (Some (map (\<lambda>c. \<lparr>resp_Jsonrpc = ''2.0'', resp_ID = ID c, Result = Generic JNull,
                                    Error = JObject [(''code'', JInt (- 32601)),
                                      (''message'', JString ''Mixed methods not supported'')]\<rparr>)
                           reqs)), [])
         \<and> length reqs = length arr
         \<and> (\<exists>rs. fst (handleJSONRPC w sched (Ok (JSON (JArray arr)))) = Batch (Some rs)
               \<and> length rs = length arr
               \<and> (\<forall>k < length arr.
                     resp_ID (rs ! k) = ID (reqs ! k)
                     \<and> error_code (rs ! k) = Some (- 32601)
                     \<and> error_message (rs ! k) = Some ''Mixed methods not supported''
                     \<and> resp_Jsonrpc (rs ! k) = ''2.0''
                     \<and> \<not> has_result (rs ! k)))"
proof -
  let ?e = "\<lambda>c. \<lparr>resp_Jsonrpc = ''2.0'', resp_ID = ID c, Result = Generic JNull,
                   Error = JObject [(''code'', JInt (- 32601)),
                                    (''message'', JString ''Mixed methods not supported'')]\<rparr>"
  from assms(1,2) have ne: "arr \<noteq> []" by (cases arr) auto
  have len: "length reqs = length arr"
    using unmarshal_all_Some [OF assms(1)] by simp
  have out: "handleJSONRPC w sched (Ok (JSON (JArray arr))) = (Batch (Some (map ?e reqs)), [])"
    using ne handleBatch_mixed [OF assms, of w sched]
    by (simp add: handleJSONRPC_def createErrorResponsesForBatch_def jsonError_def error_object_def)
  have obs: "resp_ID (map ?e reqs ! k) = ID (reqs ! k)
             \<and> error_code (map ?e reqs ! k) = Some (- 32601)
             \<and> error_message (map ?e reqs ! k) = Some ''Mixed methods not supported''
             \<and> resp_Jsonrpc (map ?e reqs ! k) = ''2.0''
             \<and> \<not> has_result (map ?e reqs ! k)"
    if "k < length arr" for k
    using that len by (simp add: error_code_def error_message_def has_result_def)
  have "\<exists>rs. fst (handleJSONRPC w sched (Ok (JSON (JArray arr)))) = Batch (Some rs)
               \<and> length rs = length arr
               \<and> (\<forall>k < length arr.
                     resp_ID (rs ! k) = ID (reqs ! k)
                     \<and> error_code (rs ! k) = Some (- 32601)
                     \<and> error_message (rs ! k) = Some ''Mixed methods not supported''
                     \<and> resp_Jsonrpc (rs ! k) = ''2.0''
                     \<and> \<not> has_result (rs ! k))"
  proof (intro exI conjI)
    show "fst (handleJSONRPC w sched (Ok (JSON (JArray arr)))) = Batch (Some (map ?e reqs))"
      by (simp add: out)
    show "length (map ?e reqs) = length arr" by (simp add: len)
    show "\<forall>k < length arr.
                     resp_ID (map ?e reqs ! k) = ID (reqs ! k)
                     \<and> error_code (map ?e reqs ! k) = Some (- 32601)
                     \<and> error_message (map ?e reqs ! k) = Some ''Mixed methods not supported''
                     \<and> resp_Jsonrpc (map ?e reqs ! k) = ''2.0''
                     \<and> \<not> has_result (map ?e reqs ! k)"
      using obs by blast
  qed
  with out len show ?thesis by blast
qed

theorem C3_mixed_methods_rejected_witness:
  "handleJSONRPC (answering (JSON (reply_object (JInt 1)))) []
     (Ok (JSON (JArray [call ''2.0'' ''eth_blockNumber'' [] 1, call ''2.0'' ''eth_chainId'' [] 2]))) =
   (Batch (Some
      [\<lparr>resp_Jsonrpc = ''2.0'', resp_ID = JInt 1, Result = Generic JNull,
        Error = JObject [(''code'', JInt (- 32601)),
                         (''message'', JString ''Mixed methods not supported'')]\<rparr>,
       \<lparr>resp_Jsonrpc = ''2.0'', resp_ID = JInt 2, Result = Generic JNull,
        Error = JObject [(''code'', JInt (- 32601)),
                         (''message'', JString ''Mixed methods not supported'')]\<rparr>]), [])"
proof -
  let ?a = "\<lparr>Jsonrpc = ''2.0'', Method = ''eth_blockNumber'', Params = Some [], ID = JInt 1\<rparr>"
  let ?b = "\<lparr>Jsonrpc = ''2.0'', Method = ''eth_chainId'', Params = Some [], ID = JInt 2\<rparr>"
  have d: "unmarshal_all unmarshal_request
             [call ''2.0'' ''eth_blockNumber'' [] 1, call ''2.0'' ''eth_chainId'' [] 2] = Some [?a, ?b]"
    by (simp add: unmarshal_call)
  have m: "Method ?a \<noteq> Method ?b" by simp
  show ?thesis
    using conjunct1 [OF C3_mixed_methods_rejected [OF d _ _ m,
          of "answering (JSON (reply_object (JInt 1)))" "[]"]]
    by simp
qed

subsection \<open>Forward proxy, single call\<close>

lemma find_folded_None:
  "f \<notin> set (map (\<lambda>kv. foldName (fst kv)) kvs) \<Longrightarrow> find (\<lambda>kv. foldName (fst kv) = f) kvs = None"
  by (induction kvs) auto

lemma decode_response_jsonrpc:
  assumes "distinct (map (\<lambda>kv. foldName (fst kv)) kvs)"
    and "decode_fields (set_response_field dec) r0 kvs = Some r"
  shows "unmarshal_string (member_named ''jsonrpc'' kvs) (resp_Jsonrpc r0) = Some (resp_Jsonrpc r)"
  using assms
proof (induction kvs arbitrary: r0)
  case Nil
  then show ?case by (simp add: member_named_def)
next
  case (Cons kv kvs)
  obtain k v where kv: "kv = (k, v)" by (cases kv)
  from Cons.prems(2) obtain r1 where r1: "set_response_field dec r0 (k, v) = Some r1"
    and rest: "decode_fields (set_response_field dec) r1 kvs = Some r"
    unfolding kv by (cases "set_response_field dec r0 (k, v)") auto
  from Cons.prems(1) have d: "distinct (map (\<lambda>kv. foldName (fst kv)) kvs)"
    and n: "foldName k \<notin> set (map (\<lambda>kv. foldName (fst kv)) kvs)"
    by (simp_all add: kv)
  note IH = Cons.IH [OF d rest]
  show ?case
  proof (cases "foldName k = ''jsonrpc''")
    case True
    with n have "member_named ''jsonrpc'' kvs = JNull"
      by (simp add: member_named_def find_folded_None)
    with IH have "resp_Jsonrpc r = resp_Jsonrpc r1" by simp
    moreover from True r1 have "unmarshal_string v (resp_Jsonrpc r0) = Some (resp_Jsonrpc r1)"
      by auto
    ultimately show ?thesis using True by (simp add: member_named_def kv)
  next
    case False
    with r1 have "resp_Jsonrpc r1 = resp_Jsonrpc r0" by (auto split: if_splits)
    with IH False show ?thesis by (simp add: member_named_def kv)
  qed
qed

lemma decode_response_result:
  assumes "distinct (map (\<lambda>kv. foldName (fst kv)) kvs)"
    and "decode_fields (set_response_field dec) r0 kvs = Some r"
    and "dec JNull = Some JNull"
  shows "(if find (\<lambda>kv. foldName (fst kv) = ''result'') kvs = None then Result r = Result r0
          else map_option Generic (dec (member_named ''result'' kvs)) = Some (Result r))"
  using assms(1,2)
proof (induction kvs arbitrary: r0)
  case Nil
  then show ?case by simp
next
  case (Cons kv kvs)
  obtain k v where kv: "kv = (k, v)" by (cases kv)
  from Cons.prems(2) obtain r1 where r1: "set_response_field dec r0 (k, v) = Some r1"
    and rest: "decode_fields (set_response_field dec) r1 kvs = Some r"
    unfolding kv by (cases "set_response_field dec r0 (k, v)") auto
  from Cons.prems(1) have d: "distinct (map (\<lambda>kv. foldName (fst kv)) kvs)"
    and n: "foldName k \<notin> set (map (\<lambda>kv. foldName (fst kv)) kvs)"
    by (simp_all add: kv)
  note IH = Cons.IH [OF d rest]
  show ?case
  proof (cases "foldName k = ''result''")
    case True
    with n have "find (\<lambda>kv. foldName (fst kv) = ''result'') kvs = None"
      by (simp add: find_folded_None)
    with IH have "Result r = Result r1" by simp
    moreover from True r1 have "map_option Generic (dec v) = Some (Result r1)"
      by (auto simp add: foldName_def lower_def)
    ultimately show ?thesis using True by (simp add: member_named_def kv)
  next
    case False
    with r1 have "Result r1 = Result r0" by (auto split: if_splits)
    with IH False show ?thesis by (auto simp add: member_named_def kv split: if_splits)
  qed
qed

lemma decode_response_error:
  assumes "distinct (map (\<lambda>kv. foldName (fst kv)) kvs)"
    and "decode_fields (set_response_field dec) r0 kvs = Some r"
  shows "(if find (\<lambda>kv. foldName (fst kv) = ''error'') kvs = None then Error r = Error r0
          else dec (member_named ''error'' kvs) = Some (Error r))"
  using assms(1,2)
proof (induction kvs arbitrary: r0)
  case Nil
  then show ?case by simp
next
  case (Cons kv kvs)
  obtain k v where kv: "kv = (k, v)" by (cases kv)
  from Cons.prems(2) obtain r1 where r1: "set_response_field dec r0 (k, v) = Some r1"
    and rest: "decode_fields (set_response_field dec) r1 kvs = Some r"
    unfolding kv by (cases "set_response_field dec r0 (k, v)") auto
  from Cons.prems(1) have d: "distinct (map (\<lambda>kv. foldName (fst kv)) kvs)"
    and n: "foldName k \<notin> set (map (\<lambda>kv. foldName (fst kv)) kvs)"
    by (simp_all add: kv)
  note IH = Cons.IH [OF d rest]
  show ?case
  proof (cases "foldName k = ''error''")
    case True
    with n have "find (\<lambda>kv. foldName (fst kv) = ''error'') kvs = None"
      by (simp add: find_folded_None)
    with IH have "Error r = Error r1" by simp
    moreover from True r1 have "dec v = Some (Error r1)"
      by (auto simp add: foldName_def lower_def)
    ultimately show ?thesis using True by (simp add: member_named_def kv)
  next
    case False
    with r1 have "Error r1 = Error r0" by (auto split: if_splits)
    with IH False show ?thesis by (auto simp add: member_named_def kv split: if_splits)
  qed
qed

lemma reply_members:
  assumes "distinct (map (\<lambda>kv. foldName (fst kv)) kvs)"
    and "unmarshal_response (unmarshal_interface conv) (JObject kvs) = Some reply"
  shows "unmarshal_string (member_named ''jsonrpc'' kvs) [] = Some (resp_Jsonrpc reply)"
    and "map_option Generic (unmarshal_interface conv (member_named ''result'' kvs)) = Some (Result reply)"
    and "unmarshal_interface conv (member_named ''error'' kvs) = Some (Error reply)"
proof -
  from assms(2)
  have d: "decode_fields (set_response_field (unmarshal_interface conv)) zero_response kvs = Some reply"
    by (simp add: unmarshal_response_def)
  show "unmarshal_string (member_named ''jsonrpc'' kvs) [] = Some (resp_Jsonrpc reply)"
    using decode_response_jsonrpc [OF assms(1) d] by (simp add: zero_response_def)
  show "map_option Generic (unmarshal_interface conv (member_named ''result'' kvs)) = Some (Result reply)"
    using decode_response_result [OF assms(1) d]
    by (auto simp add: zero_response_def member_named_def split: if_splits)
  show "unmarshal_interface conv (member_named ''error'' kvs) = Some (Error reply)"
    using decode_response_error [OF assms(1) d]
    by (auto simp add: zero_response_def member_named_def split: if_splits)
qed

lemma member_keys_response:
  "set (member_keys (marshal_response r)) \<subseteq> {''jsonrpc'', ''id'', ''result'', ''error''}"
  by (auto simp add: marshal_response_def)

text \<open>
  C5. When the upstream answers a forwarded single Call with bytes that decode as a
  Response, the Response returned carries the Call's id, whatever id the upstream
  sent, and the protocol version, result and error the reply decodes to. When the
  reply is an object (with no two keys equal up to case), these are its members
  \<^verbatim>\<open>jsonrpc\<close>, \<^verbatim>\<open>result\<close> and \<^verbatim>\<open>error\<close> as the library decodes them (a
  missing member as \<^verbatim>\<open>null\<close>). The Response is written with the members
  \<^verbatim>\<open>jsonrpc\<close> and \<^verbatim>\<open>id\<close>, with \<^verbatim>\<open>result\<close> and \<^verbatim>\<open>error\<close> when they are not
  \<^verbatim>\<open>null\<close>, and with no other member.
\<close>

theorem C5_forward_overwrites_id:
  assumes "http_Post w url (marshal_request req) = Ok body"
    and "unmarshal (unmarshal_response (interface_of w)) body = Some reply"
  shows "forwardAndReturn w req url = (reply\<lparr>resp_ID := ID req\<rparr>, [Post url (marshal_request req)])
       \<and> resp_ID (fst (forwardAndReturn w req url)) = ID req
       \<and> resp_Jsonrpc (fst (forwardAndReturn w req url)) = resp_Jsonrpc reply
       \<and> Result (fst (forwardAndReturn w req url)) = Result reply
       \<and> Error (fst (forwardAndReturn w req url)) = Error reply
       \<and> (\<forall>kvs. body = JSON (JObject kvs) \<longrightarrow> distinct (map (\<lambda>kv. foldName (fst kv)) kvs) \<longrightarrow>
             unmarshal_string (member_named ''jsonrpc'' kvs) [] =
               Some (resp_Jsonrpc (fst (forwardAndReturn w req url)))
           \<and> map_option Generic (interface_of w (member_named ''result'' kvs)) =
               Some (Result (fst (forwardAndReturn w req url)))
           \<and> interface_of w (member_named ''error'' kvs) =
               Some (Error (fst (forwardAndReturn w req url))))
       \<and> marshal_response (fst (forwardAndReturn w req url)) = JObject
           ([(''jsonrpc'', JString (resp_Jsonrpc reply)), (''id'', ID req)]
            @ (if Result reply \<noteq> Generic JNull then [(''result'', marshal_goval (Result reply))] else [])
            @ (if Error reply \<noteq> JNull then [(''error'', Error reply)] else []))
       \<and> set (member_keys (marshal_response (fst (forwardAndReturn w req url))))
            \<subseteq> {''jsonrpc'', ''id'', ''result'', ''error''}"
proof -
  have f: "forwardAndReturn w req url = (reply\<lparr>resp_ID := ID req\<rparr>, [Post url (marshal_request req)])"
    using assms by (simp add: forwardAndReturn_def)
  have m: "unmarshal_string (member_named ''jsonrpc'' kvs) [] = Some (resp_Jsonrpc reply)
           \<and> map_option Generic (interface_of w (member_named ''result'' kvs)) = Some (Result reply)
           \<and> interface_of w (member_named ''error'' kvs) = Some (Error reply)"
    if "body = JSON (JObject kvs)" and "distinct (map (\<lambda>kv. foldName (fst kv)) kvs)" for kvs
    using reply_members [OF that(2), of "convertNumber w" reply] assms(2) that(1) by simp
  show ?thesis
    using m member_keys_response [of "reply\<lparr>resp_ID := ID req\<rparr>"]
    by (simp add: f marshal_response_def has_result_def has_error_def)
qed

theorem C5_forward_overwrites_id_witness:
  "fst (forwardAndReturn (answering (JSON (reply_object (JInt 99))))
          \<lparr>Jsonrpc = ''2.0'', Method = ''eth_blockNumber'', Params = Some [], ID = JInt 1\<rparr>
          ''http://tron-node:8545/jsonrpc'') =
     \<lparr>resp_Jsonrpc = ''2.0'', resp_ID = JInt 1, Result = Generic (JString ''0x10''), Error = JNull\<rparr>
   \<and> member_named ''result'' [(''id'', JInt 99), (''jsonrpc'', JString ''2.0''),
                         (''result'', JString ''0x10'')] = JString ''0x10''
   \<and> map_option Generic (interface_of (answering (JSON (reply_object (JInt 99))))
        (member_named ''result'' [(''id'', JInt 99), (''jsonrpc'', JString ''2.0''),
                            (''result'', JString ''0x10'')])) =
       Some (Result (fst (forwardAndReturn (answering (JSON (reply_object (JInt 99))))
          \<lparr>Jsonrpc = ''2.0'', Method = ''eth_blockNumber'', Params = Some [], ID = JInt 1\<rparr>
          ''http://tron-node:8545/jsonrpc'')))
   \<and> marshal_response (fst (forwardAndReturn (answering (JSON (reply_object (JInt 99))))
          \<lparr>Jsonrpc = ''2.0'', Method = ''eth_blockNumber'', Params = Some [], ID = JInt 1\<rparr>
          ''http://tron-node:8545/jsonrpc'')) =
       JObject [(''jsonrpc'', JString ''2.0''), (''id'', JInt 1), (''result'', JString ''0x10'')]"
proof -
  let ?w = "answering (JSON (reply_object (JInt 99)))"
  let ?req = "\<lparr>Jsonrpc = ''2.0'', Method = ''eth_blockNumber'', Params = Some [], ID = JInt 1\<rparr>"
  let ?reply = "\<lparr>resp_Jsonrpc = ''2.0'', resp_ID = JInt 99, Result = Generic (JString ''0x10''), Error = JNull\<rparr>"
  let ?kvs = "[(''id'', JInt 99), (''jsonrpc'', JString ''2.0''), (''result'', JString ''0x10'')]"
  have p: "http_Post ?w ''http://tron-node:8545/jsonrpc'' (marshal_request ?req)
             = Ok (JSON (reply_object (JInt 99)))"
    by (simp add: answering_def)
  have d: "unmarshal (unmarshal_response (interface_of ?w)) (JSON (reply_object (JInt 99))) = Some ?reply"
    by (simp add: unmarshal_reply_object)
  have o: "JSON (reply_object (JInt 99)) = JSON (JObject ?kvs)" by (simp add: reply_object_def)
  have k: "distinct (map (\<lambda>kv. foldName (fst kv)) ?kvs)" by (simp add: foldName_def lower_def)
  have r: "member_named ''result'' ?kvs = JString ''0x10''" by (simp add: member_named_def foldName_def lower_def)
  note all = C5_forward_overwrites_id [OF p d]
  have 1: "fst (forwardAndReturn ?w ?req ''http://tron-node:8545/jsonrpc'') =
     \<lparr>resp_Jsonrpc = ''2.0'', resp_ID = JInt 1, Result = Generic (JString ''0x10''), Error = JNull\<rparr>"
    using conjunct1 [OF all] by simp
  have 2: "map_option Generic (interface_of ?w (member_named ''result'' ?kvs)) =
       Some (Result (fst (forwardAndReturn ?w ?req ''http://tron-node:8545/jsonrpc'')))"
    using all o k by blast
  from all
  have "marshal_response (fst (forwardAndReturn ?w ?req ''http://tron-node:8545/jsonrpc'')) = JObject
           ([(''jsonrpc'', JString (resp_Jsonrpc ?reply)), (''id'', ID ?req)]
            @ (if Result ?reply \<noteq> Generic JNull then [(''result'', marshal_goval (Result ?reply))] else [])
            @ (if Error ?reply \<noteq> JNull then [(''error'', Error ?reply)] else []))"
    by blast
  then have 3: "marshal_response (fst (forwardAndReturn ?w ?req ''http://tron-node:8545/jsonrpc'')) =
       JObject [(''jsonrpc'', JString ''2.0''), (''id'', JInt 1), (''result'', JString ''0x10'')]"
    by simp
  show ?thesis using 1 2 3 r by blast
qed

text \<open>
  The Response written is not the upstream's reply with another id: a reply with a
  \<^verbatim>\<open>null\<close> result and a member the struct does not declare is written back with
  neither.
\<close>

theorem C5_counterexample:
  "marshal_response (fst (forwardAndReturn (answering (JSON sparse_reply))
          \<lparr>Jsonrpc = ''2.0'', Method = ''eth_blockNumber'', Params = Some [], ID = JInt 1\<rparr>
          ''http://tron-node:8545/jsonrpc'')) =
     JObject [(''jsonrpc'', JString ''2.0''), (''id'', JInt 1)]
   \<and> member_keys sparse_reply = [''id'', ''jsonrpc'', ''result'', ''took'']"
proof -
  let ?w = "answering (JSON sparse_reply)"
  let ?req = "\<lparr>Jsonrpc = ''2.0'', Method = ''eth_blockNumber'', Params = Some [], ID = JInt 1\<rparr>"
  have d: "unmarshal_response (unmarshal_interface small_integers) sparse_reply =
      Some \<lparr>resp_Jsonrpc = ''2.0'', resp_ID = JInt 99, Result = Generic JNull, Error = JNull\<rparr>"
    by (simp add: sparse_reply_def unmarshal_response_def zero_response_def foldName_def lower_def)
  have "fst (forwardAndReturn ?w ?req ''http://tron-node:8545/jsonrpc'') =
      \<lparr>resp_Jsonrpc = ''2.0'', resp_ID = JInt 1, Result = Generic JNull, Error = JNull\<rparr>"
    by (simp add: forwardAndReturn_def answering_def d)
  then show ?thesis
    by (simp add: marshal_response_def has_result_def has_error_def sparse_reply_def)
qed

subsection \<open>Trace fetcher over a batch\<close>

lemma traceTask_single:
  "traceTask w reqs idx = handleDebugTransactionTrace w (reqs ! idx)"
  by (simp add: traceTask_def handleDebugTransactionTrace_def)

lemma runTask_fst:
  "fst (runTask w reqs st idx) = (fst st)[idx := fst (traceTask w reqs idx)]"
  by (simp add: runTask_def split: prod.splits)

lemma foldl_runTask_length:
  "length (fst (foldl (runTask w reqs) st sched)) = length (fst st)"
  by (induction sched arbitrary: st) (simp_all add: runTask_fst)

lemma foldl_runTask_nth:
  assumes "set sched \<subseteq> {0..<length (fst st)}" and "j < length (fst st)"
  shows "fst (foldl (runTask w reqs) st sched) ! j =
           (if j \<in> set sched then fst (traceTask w reqs j) else fst st ! j)"
  using assms
proof (induction sched arbitrary: st)
  case Nil
  then show ?case by simp
next
  case (Cons x sched)
  let ?st = "runTask w reqs st x"
  have len: "length (fst ?st) = length (fst st)" by (simp add: runTask_fst)
  have "fst (foldl (runTask w reqs) ?st sched) ! j =
          (if j \<in> set sched then fst (traceTask w reqs j) else fst ?st ! j)"
    using Cons.prems by (intro Cons.IH) (simp_all add: len)
  moreover have "fst ?st ! j = (if j = x then fst (traceTask w reqs j) else fst st ! j)"
    using Cons.prems by (simp add: runTask_fst nth_list_update)
  ultimately show ?case by auto
qed

lemma batch_trace_map:
  assumes "schedule (length reqs) sched"
  shows "fst (handleBatchDebugTransactionTrace w sched reqs) =
           map (\<lambda>c. fst (handleDebugTransactionTrace w c)) reqs"
proof (rule nth_equalityI)
  show "length (fst (handleBatchDebugTransactionTrace w sched reqs)) =
          length (map (\<lambda>c. fst (handleDebugTransactionTrace w c)) reqs)"
    by (simp add: handleBatchDebugTransactionTrace_def foldl_runTask_length)
next
  fix j assume "j < length (fst (handleBatchDebugTransactionTrace w sched reqs))"
  then have j: "j < length reqs"
    by (simp add: handleBatchDebugTransactionTrace_def foldl_runTask_length)
  with assms have "j \<in> set sched" by (simp add: schedule_def)
  moreover have "set sched \<subseteq> {0..<length reqs}" using assms by (simp add: schedule_def)
  ultimately show "fst (handleBatchDebugTransactionTrace w sched reqs) ! j =
          map (\<lambda>c. fst (handleDebugTransactionTrace w c)) reqs ! j"
    using j foldl_runTask_nth [of sched "(replicate (length reqs) zero_response, [])" j w reqs]
    by (simp add: handleBatchDebugTransactionTrace_def traceTask_single)
qed

lemma trace_missing_file:
  assumes "Params c = Some (p # ps)" and "unmarshal_string p [] = Some txId"
    and "os_ReadFile w (traceDir @ ''/'' @ txId @ ''.json'') = Err e"
  shows "fst (handleDebugTransactionTrace w c) =
           \<lparr>resp_Jsonrpc = ''2.0'', resp_ID = ID c, Result = Generic JNull,
            Error = JObject [(''code'', JInt (- 32603)),
                             (''message'', JString ''cannot read trace file'')]\<rparr>"
  using assms by (simp add: handleDebugTransactionTrace_def jsonError_def error_object_def)

lemma trace_readable_file:
  assumes "Params c = Some (p # ps)" and "unmarshal_string p [] = Some txId"
    and "os_ReadFile w (traceDir @ ''/'' @ txId @ ''.json'') = Ok (JSON doc)"
    and "interface_of w doc = Some x"
  shows "fst (handleDebugTransactionTrace w c) =
           \<lparr>resp_Jsonrpc = ''2.0'', resp_ID = ID c, Result = Generic x, Error = JNull\<rparr>"
  using assms by (simp add: handleDebugTransactionTrace_def)

lemma trace_depends_on_own_file:
  assumes "convertNumber w' = convertNumber w"
    and "\<And>p ps txId. Params c = Some (p # ps) \<Longrightarrow> unmarshal_string p [] = Some txId \<Longrightarrow>
             os_ReadFile w' (traceDir @ ''/'' @ txId @ ''.json'') =
             os_ReadFile w (traceDir @ ''/'' @ txId @ ''.json'')"
  shows "handleDebugTransactionTrace w' c = handleDebugTransactionTrace w c"
proof (cases "Params c")
  case None
  then show ?thesis by (simp add: handleDebugTransactionTrace_def)
next
  case (Some params)
  show ?thesis
  proof (cases params)
    case Nil
    with Some show ?thesis by (simp add: handleDebugTransactionTrace_def)
  next
    case (Cons p ps)
    show ?thesis
    proof (cases "unmarshal_string p []")
      case None
      with Some Cons show ?thesis by (simp add: handleDebugTransactionTrace_def)
    next
      case (Some txId)
      have "os_ReadFile w' (traceDir @ ''/'' @ txId @ ''.json'') =
            os_ReadFile w (traceDir @ ''/'' @ txId @ ''.json'')"
        using \<open>Params c = Some params\<close> Cons Some by (intro assms(2)) simp_all
      with Some Cons \<open>Params c = Some params\<close> show ?thesis
        by (simp add: handleDebugTransactionTrace_def assms(1) Let_def split: result.splits)
    qed
  qed
qed

lemma resp_ID_get [simp]: "resp_ID (fst (handleGetTransactionInfoByBlockNum w c)) = ID c"
  by (simp add: handleGetTransactionInfoByBlockNum_def jsonError_def Let_def
      split: option.splits list.splits result.splits)

lemma resp_ID_trace [simp]: "resp_ID (fst (handleDebugTransactionTrace w c)) = ID c"
  by (simp add: handleDebugTransactionTrace_def jsonError_def Let_def
      split: option.splits list.splits result.splits)

lemma resp_ID_forward [simp]: "resp_ID (fst (forwardAndReturn w c url)) = ID c"
  by (simp add: forwardAndReturn_def jsonError_def Let_def
      split: option.splits result.splits)

lemma resp_ID_single [simp]: "resp_ID (fst (handleSingleRequest w c)) = ID c"
  by (simp add: handleSingleRequest_def jsonError_def)

lemma batch_get_map:
  "fst (handleBatchGetTransactionInfo w reqs) =
     map (\<lambda>c. fst (handleGetTransactionInfoByBlockNum w c)) reqs"
  by (induction reqs) (auto split: prod.splits)

lemma aligned_map:
  "(\<And>c. resp_ID (f c) = ID c) \<Longrightarrow> aligned reqs (map f reqs)"
  by (simp add: aligned_def list_all2_map2 list_all2_same)

lemma aligned_errors: "aligned reqs (createErrorResponsesForBatch reqs code msg)"
  unfolding createErrorResponsesForBatch_def
  by (rule aligned_map) (simp add: jsonError_def)

lemma handleBatch_homogeneous:
  assumes "unmarshal_all unmarshal_request arr = Some reqs" and "arr \<noteq> []"
    and "\<forall>r \<in> set reqs. Method r = Method (hd reqs)"
  shows "handleBatch w sched arr =
     (if Method (hd reqs) = ''debug_traceBlockByHash'' then
        (Batch (Some (fst (handleBatchGetTransactionInfo w reqs))),
         snd (handleBatchGetTransactionInfo w reqs))
      else if Method (hd reqs) = ''eth_debugTransactionTrace'' then
        (Batch (Some (fst (handleBatchDebugTransactionTrace w sched reqs))),
         snd (handleBatchDebugTransactionTrace w sched reqs))
      else
        (Batch (fst (forwardBatchToJSONRPC w reqs arr (tronJSONRPCEndpoint w))),
         snd (forwardBatchToJSONRPC w reqs arr (tronJSONRPCEndpoint w))))"
proof -
  have "length reqs = length arr" using unmarshal_all_Some [OF assms(1)] by simp
  with assms(2) obtain r0 rest where reqs: "reqs = r0 # rest" by (cases reqs) auto
  have "\<not> list_ex (\<lambda>x. Method x \<noteq> Method r0) (r0 # rest)"
    using assms(3) unfolding reqs list_ex_iff by simp
  then show ?thesis
    using parseBatchRequests_all [OF assms(1)]
    by (simp add: handleBatch_def reqs sendBatchResponse_def split: prod.splits)
qed

lemma forwardBatch_cases:
  "(\<exists>msg. fst (forwardBatchToJSONRPC w reqs arr url) =
            Some (createErrorResponsesForBatch reqs (- 32603) msg))
   \<or> (\<exists>body. http_Post w url (JArray arr) = Ok body
         \<and> (unmarshal (unmarshal_slice (unmarshal_response (interface_of w))) body =
               Some (fst (forwardBatchToJSONRPC w reqs arr url))
            \<or> (\<exists>single. unmarshal (unmarshal_response (interface_of w)) body = Some single
                  \<and> fst (forwardBatchToJSONRPC w reqs arr url) = Some [single])))"
  by (auto simp add: forwardBatchToJSONRPC_def Let_def split: result.splits option.splits)


text \<open>
  C4. The goroutines of a batch of trace Calls may finish in any order: the slots they
  leave are the single-call trace handler applied to each Call, in batch order, one
  slot per Call. So the Response at index \<open>k\<close> is decided by the Call at \<open>k\<close> and the
  file it names alone. When that file cannot be read, the Response at \<open>k\<close> has version
  "2.0", the Call's id, no result, and the error object with code -32603 and message
  "cannot read trace file". When the file is read and its document decodes, the
  Response at \<open>k\<close> has the Call's id, the decoded document as result and no error.
  Neither another run nor a change of any other file changes what stands at \<open>k\<close>. The
  dispatcher writes exactly these Responses for a batch of
  \<^verbatim>\<open>eth_debugTransactionTrace\<close> Calls.
\<close>

theorem C4_batch_trace_elementwise:
  assumes "schedule (length reqs) sched"
  shows "fst (handleBatchDebugTransactionTrace w sched reqs) =
           map (\<lambda>c. fst (handleDebugTransactionTrace w c)) reqs
       \<and> length (fst (handleBatchDebugTransactionTrace w sched reqs)) = length reqs
       \<and> (\<forall>k < length reqs. \<forall>p ps txId e.
             Params (reqs ! k) = Some (p # ps) \<longrightarrow> unmarshal_string p [] = Some txId \<longrightarrow>
             os_ReadFile w (traceDir @ ''/'' @ txId @ ''.json'') = Err e \<longrightarrow>
             fst (handleBatchDebugTransactionTrace w sched reqs) ! k =
               \<lparr>resp_Jsonrpc = ''2.0'', resp_ID = ID (reqs ! k), Result = Generic JNull,
                Error = JObject [(''code'', JInt (- 32603)),
                                 (''message'', JString ''cannot read trace file'')]\<rparr>
             \<and> error_code (fst (handleBatchDebugTransactionTrace w sched reqs) ! k) = Some (- 32603)
             \<and> error_message (fst (handleBatchDebugTransactionTrace w sched reqs) ! k) =
                 Some ''cannot read trace file''
             \<and> resp_ID (fst (handleBatchDebugTransactionTrace w sched reqs) ! k) = ID (reqs ! k)
             \<and> \<not> has_result (fst (handleBatchDebugTransactionTrace w sched reqs) ! k))
       \<and> (\<forall>k < length reqs. \<forall>p ps txId doc x.
             Params (reqs ! k) = Some (p # ps) \<longrightarrow> unmarshal_string p [] = Some txId \<longrightarrow>
             os_ReadFile w (traceDir @ ''/'' @ txId @ ''.json'') = Ok (JSON doc) \<longrightarrow>
             interface_of w doc = Some x \<longrightarrow>
             fst (handleBatchDebugTransactionTrace w sched reqs) ! k =
               \<lparr>resp_Jsonrpc = ''2.0'', resp_ID = ID (reqs ! k), Result = Generic x,
                Error = JNull\<rparr>)
       \<and> (\<forall>k < length reqs. \<forall>(w' :: world) sched'.
             schedule (length reqs) sched' \<longrightarrow>
             convertNumber w' = convertNumber w \<longrightarrow>
             (\<forall>p ps txId. Params (reqs ! k) = Some (p # ps) \<longrightarrow>
                unmarshal_string p [] = Some txId \<longrightarrow>
                os_ReadFile w' (traceDir @ ''/'' @ txId @ ''.json'') =
                os_ReadFile w (traceDir @ ''/'' @ txId @ ''.json'')) \<longrightarrow>
             fst (handleBatchDebugTransactionTrace w' sched' reqs) ! k =
               fst (handleBatchDebugTransactionTrace w sched reqs) ! k)
       \<and> (\<forall>arr. unmarshal_all unmarshal_request arr = Some reqs \<longrightarrow> arr \<noteq> [] \<longrightarrow>
             (\<forall>c \<in> set reqs. Method c = ''eth_debugTransactionTrace'') \<longrightarrow>
             fst (handleJSONRPC w sched (Ok (JSON (JArray arr)))) =
               Batch (Some (map (\<lambda>c. fst (handleDebugTransactionTrace w c)) reqs)))"
proof -
  have m: "fst (handleBatchDebugTransactionTrace w sched reqs) =
           map (\<lambda>c. fst (handleDebugTransactionTrace w c)) reqs"
    by (rule batch_trace_map [OF assms])
  have missing: "fst (handleBatchDebugTransactionTrace w sched reqs) ! k =
               \<lparr>resp_Jsonrpc = ''2.0'', resp_ID = ID (reqs ! k), Result = Generic JNull,
                Error = JObject [(''code'', JInt (- 32603)),
                                 (''message'', JString ''cannot read trace file'')]\<rparr>
             \<and> error_code (fst (handleBatchDebugTransactionTrace w sched reqs) ! k) = Some (- 32603)
             \<and> error_message (fst (handleBatchDebugTransactionTrace w sched reqs) ! k) =
                 Some ''cannot read trace file''
             \<and> resp_ID (fst (handleBatchDebugTransactionTrace w sched reqs) ! k) = ID (reqs ! k)
             \<and> \<not> has_result (fst (handleBatchDebugTransactionTrace w sched reqs) ! k)"
    if "k < length reqs" "Params (reqs ! k) = Some (p # ps)" "unmarshal_string p [] = Some txId"
      "os_ReadFile w (traceDir @ ''/'' @ txId @ ''.json'') = Err e" for k p ps txId e
    using that
    by (simp add: m trace_missing_file error_code_def error_message_def has_result_def)
  have readable: "fst (handleBatchDebugTransactionTrace w sched reqs) ! k =
               \<lparr>resp_Jsonrpc = ''2.0'', resp_ID = ID (reqs ! k), Result = Generic x,
                Error = JNull\<rparr>"
    if "k < length reqs" "Params (reqs ! k) = Some (p # ps)" "unmarshal_string p [] = Some txId"
      "os_ReadFile w (traceDir @ ''/'' @ txId @ ''.json'') = Ok (JSON doc)"
      "interface_of w doc = Some x" for k p ps txId doc x
    using that by (simp add: m trace_readable_file)
  have other: "fst (handleBatchDebugTransactionTrace w' sched' reqs) ! k =
               fst (handleBatchDebugTransactionTrace w sched reqs) ! k"
    if k: "k < length reqs" and s: "schedule (length reqs) sched'"
      and c: "convertNumber w' = convertNumber w"
      and f: "\<forall>p ps txId. Params (reqs ! k) = Some (p # ps) \<longrightarrow>
                unmarshal_string p [] = Some txId \<longrightarrow>
                os_ReadFile w' (traceDir @ ''/'' @ txId @ ''.json'') =
                os_ReadFile w (traceDir @ ''/'' @ txId @ ''.json'')"
    for k and w' :: world and sched'
  proof -
    have "handleDebugTransactionTrace w' (reqs ! k) = handleDebugTransactionTrace w (reqs ! k)"
      by (rule trace_depends_on_own_file [OF c]) (use f in blast)
    then show ?thesis using k by (simp add: m batch_trace_map [OF s])
  qed
  have top: "fst (handleJSONRPC w sched (Ok (JSON (JArray arr)))) =
               Batch (Some (map (\<lambda>c. fst (handleDebugTransactionTrace w c)) reqs))"
    if d: "unmarshal_all unmarshal_request arr = Some reqs" and ne: "arr \<noteq> []"
      and t: "\<forall>c \<in> set reqs. Method c = ''eth_debugTransactionTrace''" for arr
  proof -
    have "length reqs = length arr" using unmarshal_all_Some [OF d] by simp
    with ne have "hd reqs \<in> set reqs" by (cases reqs) auto
    with t have h: "Method (hd reqs) = ''eth_debugTransactionTrace''" by blast
    with t have "\<forall>r \<in> set reqs. Method r = Method (hd reqs)" by simp
    from handleBatch_homogeneous [OF d ne this, of w sched] h ne
    show ?thesis by (simp add: handleJSONRPC_def m)
  qed
  have len: "length (fst (handleBatchDebugTransactionTrace w sched reqs)) = length reqs"
    by (simp add: m)
  show ?thesis
    apply (intro conjI allI impI)
    subgoal by (rule m)
    subgoal by (rule len)
    subgoal using missing by blast
    subgoal using missing by blast
    subgoal using missing by blast
    subgoal using missing by blast
    subgoal using missing by blast
    subgoal using readable by blast
    subgoal using other by blast
    subgoal using top by blast
    done
qed

theorem C4_batch_trace_elementwise_witness:
  "schedule 2 [1, 0]
   \<and> fst (handleBatchDebugTransactionTrace
            (with_file ''/project/trace/abc.json'' (JSON trace_doc)) [1, 0]
            [\<lparr>Jsonrpc = ''2.0'', Method = ''eth_debugTransactionTrace'',
               Params = Some [JString ''abc''], ID = JInt 1\<rparr>,
             \<lparr>Jsonrpc = ''2.0'', Method = ''eth_debugTransactionTrace'',
               Params = Some [JString ''zzz''], ID = JInt 2\<rparr>]) ! 0 =
       \<lparr>resp_Jsonrpc = ''2.0'', resp_ID = JInt 1, Result = Generic trace_doc, Error = JNull\<rparr>
   \<and> fst (handleBatchDebugTransactionTrace
            (with_file ''/project/trace/abc.json'' (JSON trace_doc)) [1, 0]
            [\<lparr>Jsonrpc = ''2.0'', Method = ''eth_debugTransactionTrace'',
               Params = Some [JString ''abc''], ID = JInt 1\<rparr>,
             \<lparr>Jsonrpc = ''2.0'', Method = ''eth_debugTransactionTrace'',
               Params = Some [JString ''zzz''], ID = JInt 2\<rparr>]) ! 1 =
       \<lparr>resp_Jsonrpc = ''2.0'', resp_ID = JInt 2, Result = Generic JNull,
        Error = JObject [(''code'', JInt (- 32603)),
                         (''message'', JString ''cannot read trace file'')]\<rparr>
   \<and> length (fst (handleBatchDebugTransactionTrace
            (with_file ''/project/trace/abc.json'' (JSON trace_doc)) [1, 0]
            [\<lparr>Jsonrpc = ''2.0'', Method = ''eth_debugTransactionTrace'',
               Params = Some [JString ''abc''], ID = JInt 1\<rparr>,
             \<lparr>Jsonrpc = ''2.0'', Method = ''eth_debugTransactionTrace'',
               Params = Some [JString ''zzz''], ID = JInt 2\<rparr>])) = 2
   \<and> fst (handleBatchDebugTransactionTrace
            (with_file ''/project/trace/abc.json'' (JSON trace_doc)) [0, 1]
            [\<lparr>Jsonrpc = ''2.0'', Method = ''eth_debugTransactionTrace'',
               Params = Some [JString ''abc''], ID = JInt 1\<rparr>,
             \<lparr>Jsonrpc = ''2.0'', Method = ''eth_debugTransactionTrace'',
               Params = Some [JString ''zzz''], ID = JInt 2\<rparr>]) ! 0 =
     fst (handleBatchDebugTransactionTrace
            (with_file ''/project/trace/abc.json'' (JSON trace_doc)) [1, 0]
            [\<lparr>Jsonrpc = ''2.0'', Method = ''eth_debugTransactionTrace'',
               Params = Some [JString ''abc''], ID = JInt 1\<rparr>,
             \<lparr>Jsonrpc = ''2.0'', Method = ''eth_debugTransactionTrace'',
               Params = Some [JString ''zzz''], ID = JInt 2\<rparr>]) ! 0"
proof -
  let ?w = "with_file ''/project/trace/abc.json'' (JSON trace_doc)"
  let ?reqs = "[\<lparr>Jsonrpc = ''2.0'', Method = ''eth_debugTransactionTrace'',
               Params = Some [JString ''abc''], ID = JInt 1\<rparr>,
             \<lparr>Jsonrpc = ''2.0'', Method = ''eth_debugTransactionTrace'',
               Params = Some [JString ''zzz''], ID = JInt 2\<rparr>]"
  have s: "schedule (length ?reqs) [1, 0]" by (auto simp add: schedule_def)
  have s': "schedule (length ?reqs) [0, 1]" by (auto simp add: schedule_def)
  have s2: "schedule 2 [1, 0]" by (auto simp add: schedule_def)
  note all = C4_batch_trace_elementwise [OF s, of ?w]
  have missing: "os_ReadFile ?w (traceDir @ ''/'' @ ''zzz'' @ ''.json'') = Err ''no such file''"
    by (simp add: with_file_def offline_def traceDir_def)
  have present: "os_ReadFile ?w (traceDir @ ''/'' @ ''abc'' @ ''.json'') = Ok (JSON trace_doc)"
    by (simp add: with_file_def offline_def traceDir_def)
  have doc: "interface_of ?w trace_doc = Some trace_doc" by simp
  have l: "length (fst (handleBatchDebugTransactionTrace ?w [1, 0] ?reqs)) = 2"
    using conjunct1 [OF conjunct2 [OF all]] by simp
  have e: "fst (handleBatchDebugTransactionTrace ?w [1, 0] ?reqs) ! 1 =
       \<lparr>resp_Jsonrpc = ''2.0'', resp_ID = JInt 2, Result = Generic JNull,
        Error = JObject [(''code'', JInt (- 32603)),
                         (''message'', JString ''cannot read trace file'')]\<rparr>"
    using conjunct1 [OF conjunct2 [OF conjunct2 [OF all]], rule_format,
        of 1 "JString ''zzz''" "[]" "''zzz''" "''no such file''"] missing
    by simp
  have r: "fst (handleBatchDebugTransactionTrace ?w [1, 0] ?reqs) ! 0 =
       \<lparr>resp_Jsonrpc = ''2.0'', resp_ID = JInt 1, Result = Generic trace_doc, Error = JNull\<rparr>"
    using conjunct1 [OF conjunct2 [OF conjunct2 [OF conjunct2 [OF all]]], rule_format,
        of 0 "JString ''abc''" "[]" "''abc''" trace_doc trace_doc] present doc
    by simp
  have o: "fst (handleBatchDebugTransactionTrace ?w [0, 1] ?reqs) ! 0 =
           fst (handleBatchDebugTransactionTrace ?w [1, 0] ?reqs) ! 0"
    using conjunct1 [OF conjunct2 [OF conjunct2 [OF conjunct2 [OF conjunct2 [OF all]]]],
        rule_format, of 0 "[0, 1]" ?w] s'
    by simp
  show ?thesis using s2 r e l o by blast
qed

subsection \<open>Length and order of a batch's Responses\<close>

text \<open>
  C2. A non-empty batch of which every element decodes: when its methods are mixed, or
  its method belongs to the REST translator or to the trace fetcher, the dispatcher
  writes as many Responses as the batch has Calls, the Response at each index carrying
  the id of the Call at that index. On the forward path it writes what the forward
  proxy returns: error Responses for all Calls, aligned in the same way, when the
  transport fails or the reply decodes as neither form; otherwise the array the
  upstream sent, as it decodes, or the upstream's single Response as the only element.
  The number of Responses is then the upstream's, not the batch's.
\<close>

theorem C2_batch_alignment:
  assumes "unmarshal_all unmarshal_request arr = Some reqs" and "arr \<noteq> []"
    and "schedule (length reqs) sched"
  shows
    "((\<exists>r \<in> set reqs. Method r \<noteq> Method (hd reqs))
        \<or> Method (hd reqs) = ''debug_traceBlockByHash''
        \<or> Method (hd reqs) = ''eth_debugTransactionTrace''
      \<longrightarrow> (\<exists>rs. fst (handleJSONRPC w sched (Ok (JSON (JArray arr)))) = Batch (Some rs)
                \<and> length rs = length arr \<and> aligned reqs rs))
     \<and> (\<not> ((\<exists>r \<in> set reqs. Method r \<noteq> Method (hd reqs))
        \<or> Method (hd reqs) = ''debug_traceBlockByHash''
        \<or> Method (hd reqs) = ''eth_debugTransactionTrace'')
      \<longrightarrow> fst (handleJSONRPC w sched (Ok (JSON (JArray arr)))) =
            Batch (fst (forwardBatchToJSONRPC w reqs arr (tronJSONRPCEndpoint w)))
          \<and> ((\<exists>msg. fst (forwardBatchToJSONRPC w reqs arr (tronJSONRPCEndpoint w)) =
                      Some (createErrorResponsesForBatch reqs (- 32603) msg)
                    \<and> length (createErrorResponsesForBatch reqs (- 32603) msg) = length arr
                    \<and> aligned reqs (createErrorResponsesForBatch reqs (- 32603) msg))
              \<or> (\<exists>body. http_Post w (tronJSONRPCEndpoint w) (JArray arr) = Ok body
                    \<and> (unmarshal (unmarshal_slice (unmarshal_response (interface_of w))) body =
                          Some (fst (forwardBatchToJSONRPC w reqs arr (tronJSONRPCEndpoint w)))
                       \<or> (\<exists>single. unmarshal (unmarshal_response (interface_of w)) body = Some single
                            \<and> fst (forwardBatchToJSONRPC w reqs arr (tronJSONRPCEndpoint w)) =
                                Some [single])))))"
proof -
  have len: "length reqs = length arr" using unmarshal_all_Some [OF assms(1)] by simp
  have top: "handleJSONRPC w sched (Ok (JSON (JArray arr))) = handleBatch w sched arr"
    using assms(2) by (simp add: handleJSONRPC_def)
  have mixed: "\<exists>rs. fst (handleBatch w sched arr) = Batch (Some rs)
                 \<and> length rs = length arr \<and> aligned reqs rs"
    if "\<exists>r \<in> set reqs. Method r \<noteq> Method (hd reqs)"
  proof -
    from that obtain r where r: "r \<in> set reqs" "Method r \<noteq> Method (hd reqs)" by blast
    then have "hd reqs \<in> set reqs" by (cases reqs) auto
    from handleBatch_mixed [OF assms(1) r(1) this r(2), of w sched]
    show ?thesis by (simp add: aligned_errors len) (simp add: createErrorResponsesForBatch_def len)
  qed
  have homog: "\<exists>rs. fst (handleBatch w sched arr) = Batch (Some rs)
                 \<and> length rs = length arr \<and> aligned reqs rs"
    if "\<forall>r \<in> set reqs. Method r = Method (hd reqs)"
      and "Method (hd reqs) = ''debug_traceBlockByHash''
           \<or> Method (hd reqs) = ''eth_debugTransactionTrace''"
    using that(2) handleBatch_homogeneous [OF assms(1,2) that(1), of w sched]
    by (auto simp add: batch_get_map batch_trace_map [OF assms(3)] len intro!: aligned_map)
  have fwd: "fst (handleBatch w sched arr) =
               Batch (fst (forwardBatchToJSONRPC w reqs arr (tronJSONRPCEndpoint w)))"
    if "\<forall>r \<in> set reqs. Method r = Method (hd reqs)"
      and "Method (hd reqs) \<noteq> ''debug_traceBlockByHash''"
      and "Method (hd reqs) \<noteq> ''eth_debugTransactionTrace''"
    using that handleBatch_homogeneous [OF assms(1,2) that(1), of w sched] by simp
  have errs: "length (createErrorResponsesForBatch reqs (- 32603) msg) = length arr" for msg
    by (simp add: createErrorResponsesForBatch_def len)
  show ?thesis
    unfolding top
    using mixed homog fwd forwardBatch_cases [of w reqs arr "tronJSONRPCEndpoint w"]
      aligned_errors [of reqs] errs
    by blast
qed

theorem C2_batch_alignment_witness:
  "fst (handleJSONRPC (with_file ''/project/trace/abc.json'' (JSON trace_doc)) [1, 0]
          (Ok (JSON (JArray [call ''2.0'' ''eth_debugTransactionTrace'' [JString ''abc''] 1,
                             call ''2.0'' ''eth_debugTransactionTrace'' [JString ''zzz''] 2])))) =
     Batch (Some
       [\<lparr>resp_Jsonrpc = ''2.0'', resp_ID = JInt 1, Result = Generic trace_doc, Error = JNull\<rparr>,
        jsonError (JInt 2) (- 32603) ''cannot read trace file''])
   \<and> aligned
        [\<lparr>Jsonrpc = ''2.0'', Method = ''eth_debugTransactionTrace'',
           Params = Some [JString ''abc''], ID = JInt 1\<rparr>,
         \<lparr>Jsonrpc = ''2.0'', Method = ''eth_debugTransactionTrace'',
           Params = Some [JString ''zzz''], ID = JInt 2\<rparr>]
        [\<lparr>resp_Jsonrpc = ''2.0'', resp_ID = JInt 1, Result = Generic trace_doc, Error = JNull\<rparr>,
         jsonError (JInt 2) (- 32603) ''cannot read trace file'']
   \<and> fst (handleJSONRPC (answering (JSON (JArray [reply_object (JInt 1), reply_object (JInt 2)])))
          [0, 1]
          (Ok (JSON (JArray [call ''2.0'' ''eth_blockNumber'' [] 1,
                             call ''2.0'' ''eth_blockNumber'' [] 2])))) =
       Batch (Some
         [\<lparr>resp_Jsonrpc = ''2.0'', resp_ID = JInt 1, Result = Generic (JString ''0x10''), Error = JNull\<rparr>,
          \<lparr>resp_Jsonrpc = ''2.0'', resp_ID = JInt 2, Result = Generic (JString ''0x10''), Error = JNull\<rparr>])"
proof -
  let ?a = "\<lparr>Jsonrpc = ''2.0'', Method = ''eth_debugTransactionTrace'',
               Params = Some [JString ''abc''], ID = JInt 1\<rparr>"
  let ?b = "\<lparr>Jsonrpc = ''2.0'', Method = ''eth_debugTransactionTrace'',
               Params = Some [JString ''zzz''], ID = JInt 2\<rparr>"
  let ?arr = "[call ''2.0'' ''eth_debugTransactionTrace'' [JString ''abc''] 1,
               call ''2.0'' ''eth_debugTransactionTrace'' [JString ''zzz''] 2]"
  let ?w = "with_file ''/project/trace/abc.json'' (JSON trace_doc)"
  let ?out = "[\<lparr>resp_Jsonrpc = ''2.0'', resp_ID = JInt 1, Result = Generic trace_doc, Error = JNull\<rparr>,
        jsonError (JInt 2) (- 32603) ''cannot read trace file'']"
  have d: "unmarshal_all unmarshal_request ?arr = Some [?a, ?b]"
    by (simp add: unmarshal_call)
  have ne: "?arr \<noteq> []" by simp
  have s: "schedule (length [?a, ?b]) [1, 0]" by (auto simp add: schedule_def)
  have "fst (handleJSONRPC ?w [1, 0] (Ok (JSON (JArray ?arr)))) =
          Batch (Some (fst (handleBatchDebugTransactionTrace ?w [1, 0] [?a, ?b])))"
    using handleBatch_homogeneous [OF d ne, of ?w "[1, 0]"] by (simp add: handleJSONRPC_def)
  also have "fst (handleBatchDebugTransactionTrace ?w [1, 0] [?a, ?b]) = ?out"
    by (subst batch_trace_map [OF s])
      (simp add: handleDebugTransactionTrace_def with_file_def offline_def traceDir_def)
  finally have out: "fst (handleJSONRPC ?w [1, 0] (Ok (JSON (JArray ?arr)))) = Batch (Some ?out)" .
  from conjunct1 [OF C2_batch_alignment [OF d ne s, of ?w]]
  obtain rs where "fst (handleJSONRPC ?w [1, 0] (Ok (JSON (JArray ?arr)))) = Batch (Some rs)"
    and "aligned [?a, ?b] rs"
    by auto
  with out have al: "aligned [?a, ?b] ?out" by simp
  let ?c = "\<lparr>Jsonrpc = ''2.0'', Method = ''eth_blockNumber'', Params = Some [], ID = JInt 1\<rparr>"
  let ?d = "\<lparr>Jsonrpc = ''2.0'', Method = ''eth_blockNumber'', Params = Some [], ID = JInt 2\<rparr>"
  let ?arr' = "[call ''2.0'' ''eth_blockNumber'' [] 1, call ''2.0'' ''eth_blockNumber'' [] 2]"
  let ?w' = "answering (JSON (JArray [reply_object (JInt 1), reply_object (JInt 2)]))"
  have d': "unmarshal_all unmarshal_request ?arr' = Some [?c, ?d]"
    by (simp add: unmarshal_call)
  have ne': "?arr' \<noteq> []" by simp
  have s': "schedule (length [?c, ?d]) [0, 1]" by (auto simp add: schedule_def)
  have f: "fst (forwardBatchToJSONRPC ?w' [?c, ?d] ?arr' (tronJSONRPCEndpoint ?w')) =
      Some [\<lparr>resp_Jsonrpc = ''2.0'', resp_ID = JInt 1, Result = Generic (JString ''0x10''), Error = JNull\<rparr>,
            \<lparr>resp_Jsonrpc = ''2.0'', resp_ID = JInt 2, Result = Generic (JString ''0x10''), Error = JNull\<rparr>]"
    by (simp add: forwardBatchToJSONRPC_def answering_def unmarshal_reply_object)
  have "fst (handleJSONRPC ?w' [0, 1] (Ok (JSON (JArray ?arr')))) =
          Batch (fst (forwardBatchToJSONRPC ?w' [?c, ?d] ?arr' (tronJSONRPCEndpoint ?w')))"
    using conjunct2 [OF C2_batch_alignment [OF d' ne' s', of ?w']] by simp
  with f have fw: "fst (handleJSONRPC ?w' [0, 1] (Ok (JSON (JArray ?arr')))) =
       Batch (Some
         [\<lparr>resp_Jsonrpc = ''2.0'', resp_ID = JInt 1, Result = Generic (JString ''0x10''), Error = JNull\<rparr>,
          \<lparr>resp_Jsonrpc = ''2.0'', resp_ID = JInt 2, Result = Generic (JString ''0x10''), Error = JNull\<rparr>])"
    by simp
  from out al fw show ?thesis by blast
qed

text \<open>
  The length of the forward path's answer is not bound to the batch: an upstream that
  answers a batch of two Calls with an array of one Response has that array written
  back.
\<close>

theorem C2_counterexample:
  "unmarshal_all unmarshal_request
      [call ''2.0'' ''eth_blockNumber'' [] 1, call ''2.0'' ''eth_blockNumber'' [] 2] =
     Some [\<lparr>Jsonrpc = ''2.0'', Method = ''eth_blockNumber'', Params = Some [], ID = JInt 1\<rparr>,
           \<lparr>Jsonrpc = ''2.0'', Method = ''eth_blockNumber'', Params = Some [], ID = JInt 2\<rparr>]
   \<and> fst (handleJSONRPC (answering (JSON (JArray [reply_object (JInt 1)]))) []
          (Ok (JSON (JArray [call ''2.0'' ''eth_blockNumber'' [] 1,
                             call ''2.0'' ''eth_blockNumber'' [] 2])))) =
       Batch (Some [\<lparr>resp_Jsonrpc = ''2.0'', resp_ID = JInt 1,
                     Result = Generic (JString ''0x10''), Error = JNull\<rparr>])"
proof -
  let ?a = "\<lparr>Jsonrpc = ''2.0'', Method = ''eth_blockNumber'', Params = Some [], ID = JInt 1\<rparr>"
  let ?b = "\<lparr>Jsonrpc = ''2.0'', Method = ''eth_blockNumber'', Params = Some [], ID = JInt 2\<rparr>"
  let ?arr = "[call ''2.0'' ''eth_blockNumber'' [] 1, call ''2.0'' ''eth_blockNumber'' [] 2]"
  let ?w = "answering (JSON (JArray [reply_object (JInt 1)]))"
  have d: "unmarshal_all unmarshal_request ?arr = Some [?a, ?b]"
    by (simp add: unmarshal_call)
  have ne: "?arr \<noteq> []" by simp
  have "fst (forwardBatchToJSONRPC ?w [?a, ?b] ?arr (tronJSONRPCEndpoint ?w)) =
      Some [\<lparr>resp_Jsonrpc = ''2.0'', resp_ID = JInt 1, Result = Generic (JString ''0x10''), Error = JNull\<rparr>]"
    by (simp add: forwardBatchToJSONRPC_def answering_def unmarshal_reply_object)
  then show ?thesis
    using handleBatch_homogeneous [OF d ne, of ?w "[]"] d by (simp add: handleJSONRPC_def)
qed

subsection \<open>Forward proxy, batch\<close>

text \<open>
  C6. The upstream's reply to a forwarded batch does not decode as an array of
  Responses. If it decodes as a single Response whose id is not null, that Response is
  returned as the only element of a batch of one. If it does not decode as a Response
  either, or decodes as one whose id is null or absent, every Call of the batch gets an
  internal error (-32603) with its own id.
\<close>

theorem C6_forward_batch_fallback:
  assumes "http_Post w url (JArray arr) = Ok body"
    and "unmarshal (unmarshal_slice (unmarshal_response (interface_of w))) body = None"
  shows "(\<forall>single. unmarshal (unmarshal_response (interface_of w)) body = Some single \<longrightarrow> resp_ID single \<noteq> JNull \<longrightarrow>
            forwardBatchToJSONRPC w reqs arr url = (Some [single], [Post url (JArray arr)]))
       \<and> (unmarshal (unmarshal_response (interface_of w)) body = None
            \<or> (\<exists>single. unmarshal (unmarshal_response (interface_of w)) body = Some single \<and> resp_ID single = JNull) \<longrightarrow>
            forwardBatchToJSONRPC w reqs arr url =
              (Some (map (\<lambda>c. jsonError (ID c) (- 32603) ''Invalid response from forwarded service'') reqs),
               [Post url (JArray arr)]))
       \<and> (\<forall>c. jsonError (ID c) (- 32603) ''Invalid response from forwarded service'' =
              \<lparr>resp_Jsonrpc = ''2.0'', resp_ID = ID c, Result = Generic JNull,
               Error = JObject [(''code'', JInt (- 32603)),
                                (''message'', JString ''Invalid response from forwarded service'')]\<rparr>)"
  using assms
  by (auto simp add: forwardBatchToJSONRPC_def createErrorResponsesForBatch_def jsonError_def
      error_object_def)

theorem C6_forward_batch_fallback_witness:
  "forwardBatchToJSONRPC (answering (JSON (reply_object (JInt 1))))
      [\<lparr>Jsonrpc = ''2.0'', Method = ''eth_blockNumber'', Params = Some [], ID = JInt 1\<rparr>,
       \<lparr>Jsonrpc = ''2.0'', Method = ''eth_blockNumber'', Params = Some [], ID = JInt 2\<rparr>]
      [call ''2.0'' ''eth_blockNumber'' [] 1, call ''2.0'' ''eth_blockNumber'' [] 2]
      ''http://tron-node:8545/jsonrpc'' =
    (Some [\<lparr>resp_Jsonrpc = ''2.0'', resp_ID = JInt 1, Result = Generic (JString ''0x10''), Error = JNull\<rparr>],
     [Post ''http://tron-node:8545/jsonrpc''
        (JArray [call ''2.0'' ''eth_blockNumber'' [] 1, call ''2.0'' ''eth_blockNumber'' [] 2])])
   \<and> forwardBatchToJSONRPC (answering NotJSON)
      [\<lparr>Jsonrpc = ''2.0'', Method = ''eth_blockNumber'', Params = Some [], ID = JInt 1\<rparr>,
       \<lparr>Jsonrpc = ''2.0'', Method = ''eth_blockNumber'', Params = Some [], ID = JInt 2\<rparr>]
      [call ''2.0'' ''eth_blockNumber'' [] 1, call ''2.0'' ''eth_blockNumber'' [] 2]
      ''http://tron-node:8545/jsonrpc'' =
    (Some [jsonError (JInt 1) (- 32603) ''Invalid response from forwarded service'',
           jsonError (JInt 2) (- 32603) ''Invalid response from forwarded service''],
     [Post ''http://tron-node:8545/jsonrpc''
        (JArray [call ''2.0'' ''eth_blockNumber'' [] 1, call ''2.0'' ''eth_blockNumber'' [] 2])])"
proof -
  let ?w = "answering (JSON (reply_object (JInt 1)))"
  let ?arr = "[call ''2.0'' ''eth_blockNumber'' [] 1, call ''2.0'' ''eth_blockNumber'' [] 2]"
  have p: "http_Post ?w ''http://tron-node:8545/jsonrpc'' (JArray ?arr) = Ok (JSON (reply_object (JInt 1)))"
    by (simp add: answering_def)
  have n: "unmarshal (unmarshal_slice (unmarshal_response (interface_of ?w)))
             (JSON (reply_object (JInt 1))) = None"
    by (simp add: reply_object_def)
  have p': "http_Post (answering NotJSON) ''http://tron-node:8545/jsonrpc'' (JArray ?arr) = Ok NotJSON"
    by (simp add: answering_def)
  have n': "unmarshal (unmarshal_slice (unmarshal_response (interface_of (answering NotJSON))))
              NotJSON = None"
    by simp
  show ?thesis
    using conjunct1 [OF C6_forward_batch_fallback [OF p n]]
      conjunct1 [OF conjunct2 [OF C6_forward_batch_fallback [OF p' n']]]
    by (simp add: unmarshal_reply_object)
qed

text \<open>
  A reply that decodes as a single Response is not returned when its id is null: the
  error object with a null id decodes as a Response, and the batch is answered with
  internal errors.
\<close>

theorem C6_counterexample:
  "unmarshal (unmarshal_slice (unmarshal_response (interface_of (answering (JSON upstream_error)))))
      (JSON upstream_error) = None
   \<and> unmarshal (unmarshal_response (interface_of (answering (JSON upstream_error))))
      (JSON upstream_error) =
       Some \<lparr>resp_Jsonrpc = ''2.0'', resp_ID = JNull, Result = Generic JNull,
             Error = JObject [(''code'', JInt (- 32600)), (''message'', JString ''Invalid Request'')]\<rparr>
   \<and> fst (forwardBatchToJSONRPC (answering (JSON upstream_error))
        [\<lparr>Jsonrpc = ''2.0'', Method = ''eth_blockNumber'', Params = Some [], ID = JInt 1\<rparr>,
         \<lparr>Jsonrpc = ''2.0'', Method = ''eth_blockNumber'', Params = Some [], ID = JInt 2\<rparr>]
        [call ''2.0'' ''eth_blockNumber'' [] 1, call ''2.0'' ''eth_blockNumber'' [] 2]
        ''http://tron-node:8545/jsonrpc'') =
       Some [jsonError (JInt 1) (- 32603) ''Invalid response from forwarded service'',
             jsonError (JInt 2) (- 32603) ''Invalid response from forwarded service'']"
proof -
  have n: "unmarshal_slice (unmarshal_response (unmarshal_interface small_integers)) upstream_error = None"
    by (simp add: upstream_error_def)
  have s: "unmarshal_response (unmarshal_interface small_integers) upstream_error =
       Some \<lparr>resp_Jsonrpc = ''2.0'', resp_ID = JNull, Result = Generic JNull,
             Error = JObject [(''code'', JInt (- 32600)), (''message'', JString ''Invalid Request'')]\<rparr>"
    by (simp add: upstream_error_def unmarshal_response_def zero_response_def foldName_def lower_def
        as_map_def)
  show ?thesis
    by (simp add: n s forwardBatchToJSONRPC_def answering_def createErrorResponsesForBatch_def)
qed


subsection \<open>REST translator\<close>

lemma unmarshal_int64_cases:
  "unmarshal_int64 p cur = Some n \<Longrightarrow> p = JNull \<or> is_int64 p"
  by (cases p) (auto split: if_splits)

lemma unmarshal_int64_None:
  "p \<noteq> JNull \<Longrightarrow> \<not> is_int64 p \<Longrightarrow> unmarshal_int64 p cur = None"
  by (cases p) auto

lemma error_code_jsonError [simp]: "error_code (jsonError i code msg) = Some code"
  by (simp add: error_code_def jsonError_def error_object_def)

lemma error_code_success: "Error r = JNull \<Longrightarrow> error_code r = None"
  by (simp add: error_code_def)

lemma rest_invalid_params_only:
  assumes "error_code (fst (handleGetTransactionInfoByBlockNum w req)) = Some (- 32602)"
  shows "len (Params req) = 0 \<or> (\<exists>p ps. Params req = Some (p # ps) \<and> \<not> is_int64 p)"
proof (cases "Params req")
  case None
  then show ?thesis by (simp add: len_def)
next
  case (Some params)
  show ?thesis
  proof (cases params)
    case Nil
    with Some show ?thesis by (simp add: len_def)
  next
    case (Cons p ps)
    show ?thesis
    proof (cases "unmarshal_int64 p 0")
      case None
      then have "\<not> is_int64 p" by (cases p) (auto split: if_splits)
      with Some Cons show ?thesis by simp
    next
      case (Some n)
      with assms \<open>Params req = Some params\<close> Cons have False
        by (simp add: handleGetTransactionInfoByBlockNum_def Let_def error_code_success
            split: result.splits option.splits)
      then show ?thesis ..
    qed
  qed
qed

lemma member_keys_txinfo:
  "member_keys (marshal_txinfo t) =
     [''internal_transactions'', ''id'', ''blockNumber'', ''transactionHash'']"
  by (simp add: marshal_txinfo_def)

text \<open>
  C7. The REST translator answers with Invalid params (-32602), without calling the
  endpoint, when the Call has no parameters and when its first parameter is not null
  and not an integer of the signed 64-bit range; and it answers with that code only
  when the parameters are empty or the first one is not such an integer. When the
  endpoint replies with an array whose records decode, the result is the slice of
  decoded records: written back, one object per record of the reply, each with the
  four members of the struct and no other.
\<close>

theorem C7_rest_translator:
  "(len (Params req) = 0 \<longrightarrow>
      handleGetTransactionInfoByBlockNum w req = (jsonError (ID req) (- 32602) ''Invalid params'', []))
   \<and> (\<forall>p ps. Params req = Some (p # ps) \<longrightarrow> p \<noteq> JNull \<longrightarrow> \<not> is_int64 p \<longrightarrow>
        handleGetTransactionInfoByBlockNum w req =
          (jsonError (ID req) (- 32602) ''Invalid params: must be integer block number'', []))
   \<and> (error_code (fst (handleGetTransactionInfoByBlockNum w req)) = Some (- 32602) \<longrightarrow>
        len (Params req) = 0 \<or> (\<exists>p ps. Params req = Some (p # ps) \<and> \<not> is_int64 p))
   \<and> (\<forall>p ps n recs ts.
        Params req = Some (p # ps) \<longrightarrow> unmarshal_int64 p 0 = Some n \<longrightarrow>
        http_Post w (tronRestEndpoint w @ ''/wallet/gettransactioninfobyblocknum'')
          (JObject [(''num'', JInt n)]) = Ok (JSON (JArray recs)) \<longrightarrow>
        unmarshal_all unmarshal_txinfo recs = Some ts \<longrightarrow>
        fst (handleGetTransactionInfoByBlockNum w req) =
          \<lparr>resp_Jsonrpc = ''2.0'', resp_ID = ID req, Result = TxInfos (Some ts), Error = JNull\<rparr>
        \<and> marshal_goval (Result (fst (handleGetTransactionInfoByBlockNum w req))) =
            JArray (map marshal_txinfo ts)
        \<and> length ts = length recs
        \<and> (\<forall>t \<in> set ts. member_keys (marshal_txinfo t) =
              [''internal_transactions'', ''id'', ''blockNumber'', ''transactionHash'']))
   \<and> jsonError (ID req) (- 32602) ''Invalid params'' =
        \<lparr>resp_Jsonrpc = ''2.0'', resp_ID = ID req, Result = Generic JNull,
         Error = JObject [(''code'', JInt (- 32602)), (''message'', JString ''Invalid params'')]\<rparr>
   \<and> jsonError (ID req) (- 32602) ''Invalid params: must be integer block number'' =
        \<lparr>resp_Jsonrpc = ''2.0'', resp_ID = ID req, Result = Generic JNull,
         Error = JObject [(''code'', JInt (- 32602)),
                          (''message'', JString ''Invalid params: must be integer block number'')]\<rparr>"
proof (intro conjI allI impI ballI)
  show "jsonError (ID req) (- 32602) ''Invalid params'' =
        \<lparr>resp_Jsonrpc = ''2.0'', resp_ID = ID req, Result = Generic JNull,
         Error = JObject [(''code'', JInt (- 32602)), (''message'', JString ''Invalid params'')]\<rparr>"
    by (simp add: jsonError_def error_object_def)
  show "jsonError (ID req) (- 32602) ''Invalid params: must be integer block number'' =
        \<lparr>resp_Jsonrpc = ''2.0'', resp_ID = ID req, Result = Generic JNull,
         Error = JObject [(''code'', JInt (- 32602)),
                          (''message'', JString ''Invalid params: must be integer block number'')]\<rparr>"
    by (simp add: jsonError_def error_object_def)
next
  assume "len (Params req) = 0"
  then show "handleGetTransactionInfoByBlockNum w req =
      (jsonError (ID req) (- 32602) ''Invalid params'', [])"
    by (auto simp add: len_def handleGetTransactionInfoByBlockNum_def split: option.splits list.splits)
next
  fix p ps assume "Params req = Some (p # ps)" "p \<noteq> JNull" "\<not> is_int64 p"
  then show "handleGetTransactionInfoByBlockNum w req =
          (jsonError (ID req) (- 32602) ''Invalid params: must be integer block number'', [])"
    by (simp add: handleGetTransactionInfoByBlockNum_def unmarshal_int64_None)
next
  assume "error_code (fst (handleGetTransactionInfoByBlockNum w req)) = Some (- 32602)"
  then show "len (Params req) = 0 \<or> (\<exists>p ps. Params req = Some (p # ps) \<and> \<not> is_int64 p)"
    by (rule rest_invalid_params_only)
next
  fix p ps n recs ts
  assume a: "Params req = Some (p # ps)" "unmarshal_int64 p 0 = Some n"
    "http_Post w (tronRestEndpoint w @ ''/wallet/gettransactioninfobyblocknum'')
          (JObject [(''num'', JInt n)]) = Ok (JSON (JArray recs))"
    "unmarshal_all unmarshal_txinfo recs = Some ts"
  then show r: "fst (handleGetTransactionInfoByBlockNum w req) =
          \<lparr>resp_Jsonrpc = ''2.0'', resp_ID = ID req, Result = TxInfos (Some ts), Error = JNull\<rparr>"
    by (simp add: handleGetTransactionInfoByBlockNum_def)
  show "marshal_goval (Result (fst (handleGetTransactionInfoByBlockNum w req))) =
            JArray (map marshal_txinfo ts)"
    by (simp add: r)
  show "length ts = length recs" using unmarshal_all_Some [OF a(4)] by simp
  fix t assume "t \<in> set ts"
  show "member_keys (marshal_txinfo t) =
              [''internal_transactions'', ''id'', ''blockNumber'', ''transactionHash'']"
    by (rule member_keys_txinfo)
qed

lemma foldName_examples:
  "foldName ''blockNumber'' = ''blocknumber''"
  "foldName ''blockTimeStamp'' = ''blocktimestamp''"
  by code_simp+

lemma unmarshal_rest_record:
  "unmarshal_txinfo rest_record =
     Some \<lparr>InternalTransactions = None, tx_Id = ''ab'', BlockNumber = 7, TransactionHash = []\<rparr>"
  by (simp add: rest_record_def unmarshal_txinfo_def zero_txinfo_def foldName_examples)
    (simp add: foldName_def lower_def)

lemma rest_example:
  "handleGetTransactionInfoByBlockNum (answering (JSON (JArray [rest_record])))
      \<lparr>Jsonrpc = ''2.0'', Method = ''debug_traceBlockByHash'', Params = Some [p], ID = JInt 1\<rparr> =
   (case unmarshal_int64 p 0 of
      None \<Rightarrow> (jsonError (JInt 1) (- 32602) ''Invalid params: must be integer block number'', [])
    | Some n \<Rightarrow>
     (\<lparr>resp_Jsonrpc = ''2.0'', resp_ID = JInt 1,
       Result = TxInfos (Some [\<lparr>InternalTransactions = None, tx_Id = ''ab'', BlockNumber = 7,
                                 TransactionHash = []\<rparr>]),
       Error = JNull\<rparr>,
      [Post ''http://tron-node:8090/wallet/gettransactioninfobyblocknum''
         (JObject [(''num'', JInt n)])]))"
  by (simp add: handleGetTransactionInfoByBlockNum_def answering_def offline_def
      unmarshal_rest_record split: option.splits)

theorem C7_rest_translator_witness:
  "handleGetTransactionInfoByBlockNum (answering (JSON (JArray [rest_record])))
      \<lparr>Jsonrpc = ''2.0'', Method = ''debug_traceBlockByHash'', Params = Some [JString ''7''], ID = JInt 1\<rparr> =
     (jsonError (JInt 1) (- 32602) ''Invalid params: must be integer block number'', [])
   \<and> marshal_goval (Result (fst (handleGetTransactionInfoByBlockNum
        (answering (JSON (JArray [rest_record])))
        \<lparr>Jsonrpc = ''2.0'', Method = ''debug_traceBlockByHash'', Params = Some [JInt 7], ID = JInt 1\<rparr>))) =
     JArray [JObject [(''internal_transactions'', JNull), (''id'', JString ''ab''),
                      (''blockNumber'', JInt 7), (''transactionHash'', JString [])]]"
proof -
  let ?w = "answering (JSON (JArray [rest_record]))"
  let ?bad = "\<lparr>Jsonrpc = ''2.0'', Method = ''debug_traceBlockByHash'',
                Params = Some [JString ''7''], ID = JInt 1\<rparr>"
  let ?good = "\<lparr>Jsonrpc = ''2.0'', Method = ''debug_traceBlockByHash'',
                 Params = Some [JInt 7], ID = JInt 1\<rparr>"
  have 1: "handleGetTransactionInfoByBlockNum ?w ?bad =
     (jsonError (JInt 1) (- 32602) ''Invalid params: must be integer block number'', [])"
    using conjunct1 [OF conjunct2 [OF C7_rest_translator [of ?bad ?w]]] by simp
  have p: "http_Post ?w (tronRestEndpoint ?w @ ''/wallet/gettransactioninfobyblocknum'')
          (JObject [(''num'', JInt 7)]) = Ok (JSON (JArray [rest_record]))"
    by (simp add: answering_def)
  have d: "unmarshal_all unmarshal_txinfo [rest_record] =
      Some [\<lparr>InternalTransactions = None, tx_Id = ''ab'', BlockNumber = 7, TransactionHash = []\<rparr>]"
    by (simp add: unmarshal_rest_record)
  have 2: "marshal_goval (Result (fst (handleGetTransactionInfoByBlockNum ?w ?good))) =
     JArray (map marshal_txinfo
       [\<lparr>InternalTransactions = None, tx_Id = ''ab'', BlockNumber = 7, TransactionHash = []\<rparr>])"
    using conjunct2 [OF conjunct2 [OF conjunct2 [OF C7_rest_translator [of ?good ?w]]]] p d
    by simp
  show ?thesis using 1 2 by (simp add: marshal_txinfo_def marshal_raws_def)
qed

text \<open>
  Two inputs at which the translator does otherwise than a pass-through with an
  integer check: a first parameter \<^verbatim>\<open>null\<close>, which is no integer, is not refused
  but read as block 0 and sent to the endpoint; and a record of the reply that has
  members the struct does not declare is written back without them, so the result is
  not the array the endpoint sent.
\<close>

theorem C7_counterexample:
  "\<not> is_int64 JNull
   \<and> error_code (fst (handleGetTransactionInfoByBlockNum (answering (JSON (JArray [rest_record])))
        \<lparr>Jsonrpc = ''2.0'', Method = ''debug_traceBlockByHash'', Params = Some [JNull], ID = JInt 1\<rparr>))
       = None
   \<and> snd (handleGetTransactionInfoByBlockNum (answering (JSON (JArray [rest_record])))
        \<lparr>Jsonrpc = ''2.0'', Method = ''debug_traceBlockByHash'', Params = Some [JNull], ID = JInt 1\<rparr>)
       = [Post ''http://tron-node:8090/wallet/gettransactioninfobyblocknum'' (JObject [(''num'', JInt 0)])]
   \<and> marshal_goval (Result (fst (handleGetTransactionInfoByBlockNum
        (answering (JSON (JArray [rest_record])))
        \<lparr>Jsonrpc = ''2.0'', Method = ''debug_traceBlockByHash'', Params = Some [JInt 7], ID = JInt 1\<rparr>)))
       \<noteq> JArray [rest_record]"
proof -
  let ?w = "answering (JSON (JArray [rest_record]))"
  have a: "handleGetTransactionInfoByBlockNum ?w
        \<lparr>Jsonrpc = ''2.0'', Method = ''debug_traceBlockByHash'', Params = Some [JNull], ID = JInt 1\<rparr> =
     (\<lparr>resp_Jsonrpc = ''2.0'', resp_ID = JInt 1,
       Result = TxInfos (Some [\<lparr>InternalTransactions = None, tx_Id = ''ab'', BlockNumber = 7,
                                 TransactionHash = []\<rparr>]),
       Error = JNull\<rparr>,
      [Post ''http://tron-node:8090/wallet/gettransactioninfobyblocknum''
         (JObject [(''num'', JInt 0)])])"
    using rest_example [of JNull] by simp
  have b: "handleGetTransactionInfoByBlockNum ?w
        \<lparr>Jsonrpc = ''2.0'', Method = ''debug_traceBlockByHash'', Params = Some [JInt 7], ID = JInt 1\<rparr> =
     (\<lparr>resp_Jsonrpc = ''2.0'', resp_ID = JInt 1,
       Result = TxInfos (Some [\<lparr>InternalTransactions = None, tx_Id = ''ab'', BlockNumber = 7,
                                 TransactionHash = []\<rparr>]),
       Error = JNull\<rparr>,
      [Post ''http://tron-node:8090/wallet/gettransactioninfobyblocknum''
         (JObject [(''num'', JInt 7)])])"
    using rest_example [of "JInt 7"] by simp
  have c: "marshal_txinfo \<lparr>InternalTransactions = None, tx_Id = ''ab'', BlockNumber = 7,
                                 TransactionHash = []\<rparr> \<noteq> rest_record"
    by (simp add: marshal_txinfo_def rest_record_def)
  show ?thesis
    by (simp add: a b c error_code_def)
qed

subsection \<open>Protocol version\<close>

lemma single_invalid_version:
  "Jsonrpc req \<noteq> ''2.0'' \<Longrightarrow>
     handleSingleRequest w req = (jsonError (ID req) (- 32600) ''Invalid Request'', [])"
  by (simp add: handleSingleRequest_def)

text \<open>
  C8 at a concrete request. A Call with protocol version "1.0" is refused with -32600
  when it is sent alone, and executed when it is sent as the only element of a
  batch: the batch branch never looks at the version.
\<close>

theorem C8_batch_skips_version_check:
  "handleJSONRPC (with_file ''/project/trace/abc.json'' (JSON trace_doc)) [0]
     (Ok (JSON (JArray [call ''1.0'' ''eth_debugTransactionTrace'' [JString ''abc''] 1]))) =
     (Batch (Some [\<lparr>resp_Jsonrpc = ''2.0'', resp_ID = JInt 1, Result = Generic trace_doc, Error = JNull\<rparr>]),
      [ReadFile ''/project/trace/abc.json''])
   \<and> handleJSONRPC (with_file ''/project/trace/abc.json'' (JSON trace_doc)) [0]
     (Ok (JSON (call ''1.0'' ''eth_debugTransactionTrace'' [JString ''abc''] 1))) =
     (Single (jsonError (JInt 1) (- 32600) ''Invalid Request''), [])"
proof -
  let ?w = "with_file ''/project/trace/abc.json'' (JSON trace_doc)"
  let ?c = "\<lparr>Jsonrpc = ''1.0'', Method = ''eth_debugTransactionTrace'',
              Params = Some [JString ''abc''], ID = JInt 1\<rparr>"
  have p: "parseBatchRequests [call ''1.0'' ''eth_debugTransactionTrace'' [JString ''abc''] 1] =
             (Some [?c], None)"
    by (simp add: parseBatchRequests_def unmarshal_call)
  have t: "traceTask ?w [?c] 0 =
      (\<lparr>resp_Jsonrpc = ''2.0'', resp_ID = JInt 1, Result = Generic trace_doc, Error = JNull\<rparr>,
       [ReadFile ''/project/trace/abc.json''])"
    by (simp add: traceTask_def with_file_def offline_def traceDir_def)
  have b: "handleBatchDebugTransactionTrace ?w [0] [?c] =
      ([\<lparr>resp_Jsonrpc = ''2.0'', resp_ID = JInt 1, Result = Generic trace_doc, Error = JNull\<rparr>],
       [ReadFile ''/project/trace/abc.json''])"
    by (simp add: handleBatchDebugTransactionTrace_def runTask_def t)
  have batch: "handleJSONRPC ?w [0]
     (Ok (JSON (JArray [call ''1.0'' ''eth_debugTransactionTrace'' [JString ''abc''] 1]))) =
     (Batch (Some [\<lparr>resp_Jsonrpc = ''2.0'', resp_ID = JInt 1, Result = Generic trace_doc, Error = JNull\<rparr>]),
      [ReadFile ''/project/trace/abc.json''])"
    by (simp add: handleJSONRPC_def handleBatch_def p b sendBatchResponse_def)
  have single: "handleJSONRPC ?w [0]
     (Ok (JSON (call ''1.0'' ''eth_debugTransactionTrace'' [JString ''abc''] 1))) =
     (Single (jsonError (JInt 1) (- 32600) ''Invalid Request''), [])"
    using unmarshal_call [of "''1.0''" "''eth_debugTransactionTrace''" "[JString ''abc'']" 1]
    by (simp add: handleJSONRPC_def call_def parseSingleRequest_def handleSingleRequest_def
        sendJSONRPCResponse_def jsonError_def)
  show ?thesis using batch single by simp
qed

subsection \<open>Shape of the Responses\<close>

lemma well_formed_jsonError [simp]: "well_formed (jsonError i code msg)"
  by (simp add: well_formed_def jsonError_def has_result_def has_error_def error_object_def)





lemma well_formed_ID [simp]: "well_formed (r\<lparr>resp_ID := i\<rparr>) = well_formed r"
  by (simp add: well_formed_def has_result_def has_error_def)





subsection \<open>Null ids\<close>

lemma decode_fields_append:
  "decode_fields f r (xs @ ys) =
     (case decode_fields f r xs of None \<Rightarrow> None | Some r' \<Rightarrow> decode_fields f r' ys)"
  by (induction xs arbitrary: r) (simp_all split: option.splits)

lemma foldName_id [simp]: "foldName ''id'' = ''id''"
  by (simp add: foldName_def lower_def)

lemma set_request_field_keeps_ID:
  "foldName k \<noteq> ''id'' \<Longrightarrow> set_request_field r (k, v) = Some r' \<Longrightarrow> ID r' = ID r"
  by (auto split: if_splits)

lemma decode_fields_keeps_ID:
  "\<forall>k \<in> set (map fst xs). foldName k \<noteq> ''id'' \<Longrightarrow>
     decode_fields set_request_field r xs = Some r' \<Longrightarrow> ID r' = ID r"
proof (induction xs arbitrary: r)
  case Nil
  then show ?case by simp
next
  case (Cons kv xs)
  obtain k v where kv: "kv = (k, v)" by (cases kv)
  from Cons.prems(2) obtain r1 where r1: "set_request_field r (k, v) = Some r1"
    and rest: "decode_fields set_request_field r1 xs = Some r'"
    unfolding kv by (cases "set_request_field r (k, v)") auto
  have "foldName k \<noteq> ''id''" using Cons.prems(1) kv by simp
  then have "ID r1 = ID r" using r1 by (rule set_request_field_keeps_ID)
  moreover have "ID r' = ID r1" using Cons.prems(1) rest by (intro Cons.IH) simp_all
  ultimately show ?case by simp
qed

lemma set_null_id: "ID r = JNull \<Longrightarrow> set_request_field r (''id'', JNull) = Some r"
  by simp

lemma explicit_null_id_is_absent:
  assumes "\<forall>k \<in> set (map fst xs). foldName k \<noteq> ''id''"
  shows "parseSingleRequest (xs @ (''id'', JNull) # ys) = parseSingleRequest (xs @ ys)"
proof (cases "decode_fields set_request_field zero_request xs")
  case None
  then show ?thesis
    by (simp add: parseSingleRequest_def unmarshal_request_def decode_fields_append)
next
  case (Some r)
  have "ID r = ID zero_request" using assms Some by (rule decode_fields_keeps_ID)
  then have "ID r = JNull" by (simp add: zero_request_def)
  then have "set_request_field r (''id'', JNull) = Some r" by (rule set_null_id)
  then show ?thesis
    using Some
    by (simp only: parseSingleRequest_def unmarshal_request_def json.case decode_fields_append
        option.case decode_fields.simps)
qed

lemma absent_id_is_null:
  assumes "\<forall>k \<in> set (map fst v). foldName k \<noteq> ''id''" and "parseSingleRequest v = Some req"
  shows "ID req = JNull"
proof -
  from assms(2) have "decode_fields set_request_field zero_request v = Some req"
    by (simp add: parseSingleRequest_def unmarshal_request_def)
  with assms(1) have "ID req = ID zero_request" by (rule decode_fields_keeps_ID)
  then show ?thesis by (simp add: zero_request_def)
qed

lemma null_id_no_body:
  "ID req = JNull \<Longrightarrow> sendJSONRPCResponse (fst (handleSingleRequest w req)) = Empty"
  by (simp add: sendJSONRPCResponse_def)

text \<open>
  C10. A single Call whose id is null gets no response body, whatever its handling
  produced. An object with the member \<^verbatim>\<open>"id": null\<close> decodes to the same Call as the
  object without that member, and is answered the same way; and a Call decoded from
  an object with no id member has a null id.
\<close>

theorem C10_null_id_is_notification:
  "(ID req = JNull \<longrightarrow> sendJSONRPCResponse (fst (handleSingleRequest w req)) = Empty)
   \<and> (parseSingleRequest v = Some req \<longrightarrow> ID req = JNull \<longrightarrow>
        fst (handleJSONRPC w sched (Ok (JSON (JObject v)))) = Empty)
   \<and> ((\<forall>k \<in> set (map fst xs). foldName k \<noteq> ''id'') \<longrightarrow>
        parseSingleRequest (xs @ (''id'', JNull) # ys) = parseSingleRequest (xs @ ys)
        \<and> handleJSONRPC w sched (Ok (JSON (JObject (xs @ (''id'', JNull) # ys)))) =
            handleJSONRPC w sched (Ok (JSON (JObject (xs @ ys)))))
   \<and> ((\<forall>k \<in> set (map fst v). foldName k \<noteq> ''id'') \<longrightarrow> parseSingleRequest v = Some req \<longrightarrow>
        ID req = JNull)"
proof (intro conjI impI)
  assume "ID req = JNull"
  then show "sendJSONRPCResponse (fst (handleSingleRequest w req)) = Empty"
    by (rule null_id_no_body)
next
  assume "parseSingleRequest v = Some req" "ID req = JNull"
  then show "fst (handleJSONRPC w sched (Ok (JSON (JObject v)))) = Empty"
    using null_id_no_body [of req w]
    by (auto simp add: handleJSONRPC_def split: prod.splits)
next
  assume a: "\<forall>k \<in> set (map fst xs). foldName k \<noteq> ''id''"
  then show e: "parseSingleRequest (xs @ (''id'', JNull) # ys) = parseSingleRequest (xs @ ys)"
    by (rule explicit_null_id_is_absent)
  show "handleJSONRPC w sched (Ok (JSON (JObject (xs @ (''id'', JNull) # ys)))) =
            handleJSONRPC w sched (Ok (JSON (JObject (xs @ ys))))"
    by (simp add: handleJSONRPC_def e)
next
  assume "\<forall>k \<in> set (map fst v). foldName k \<noteq> ''id''" "parseSingleRequest v = Some req"
  then show "ID req = JNull" by (rule absent_id_is_null)
qed

theorem C10_null_id_is_notification_witness:
  "parseSingleRequest [(''id'', JNull), (''jsonrpc'', JString ''1.0''),
                       (''method'', JString ''eth_blockNumber'')] =
     Some \<lparr>Jsonrpc = ''1.0'', Method = ''eth_blockNumber'', Params = None, ID = JNull\<rparr>
   \<and> fst (handleSingleRequest offline
        \<lparr>Jsonrpc = ''1.0'', Method = ''eth_blockNumber'', Params = None, ID = JNull\<rparr>) =
       jsonError JNull (- 32600) ''Invalid Request''
   \<and> fst (handleJSONRPC offline []
       (Ok (JSON (JObject [(''id'', JNull), (''jsonrpc'', JString ''1.0''),
                           (''method'', JString ''eth_blockNumber'')])))) = Empty
   \<and> handleJSONRPC offline []
       (Ok (JSON (JObject [(''id'', JNull), (''jsonrpc'', JString ''1.0''),
                           (''method'', JString ''eth_blockNumber'')]))) =
     handleJSONRPC offline []
       (Ok (JSON (JObject [(''jsonrpc'', JString ''1.0''),
                           (''method'', JString ''eth_blockNumber'')])))"
proof -
  let ?ys = "[(''jsonrpc'', JString ''1.0''), (''method'', JString ''eth_blockNumber'')]"
  let ?v = "(''id'', JNull) # ?ys"
  let ?req = "\<lparr>Jsonrpc = ''1.0'', Method = ''eth_blockNumber'', Params = None, ID = JNull\<rparr>"
  have p: "parseSingleRequest ?v = Some ?req"
    by (simp add: parseSingleRequest_def unmarshal_request_def zero_request_def foldName_def lower_def)
  have i: "ID ?req = JNull" by simp
  have h: "fst (handleSingleRequest offline ?req) = jsonError JNull (- 32600) ''Invalid Request''"
    by (simp add: handleSingleRequest_def)
  note all = C10_null_id_is_notification
    [where req = ?req and w = offline and v = ?v and sched = "[]" and xs = "[]" and ys = ?ys]
  from all p i
  have a: "fst (handleJSONRPC offline [] (Ok (JSON (JObject ?v)))) = Empty" by blast
  from all
  have b: "handleJSONRPC offline [] (Ok (JSON (JObject ?v))) =
           handleJSONRPC offline [] (Ok (JSON (JObject ?ys)))"
    by simp
  from p h a b show ?thesis by simp
qed

end
